theory Spec2Isabelle
  imports Main "HOL-Library.Sublist"
begin

section \<open>The Go standard library functions the code calls\<close>

text \<open>
  Go strings are byte sequences; they are modelled as \<open>string\<close> (a list of \<open>char\<close>,
  one \<open>char\<close> per byte). The functions of package \<open>strings\<close>, \<open>path\<close> and
  \<open>strconv\<close> below follow the documented behaviour of the Go standard library; they
  are not part of the repository.
\<close>

subsection \<open>Package strings\<close>

definition HasPrefix :: "string \<Rightarrow> string \<Rightarrow> bool" where
  "HasPrefix s p = prefix p s"

definition HasSuffix :: "string \<Rightarrow> string \<Rightarrow> bool" where
  "HasSuffix s p = suffix p s"

definition TrimPrefix :: "string \<Rightarrow> string \<Rightarrow> string" where
  "TrimPrefix s p = (if HasPrefix s p then drop (length p) s else s)"

definition TrimSuffix :: "string \<Rightarrow> string \<Rightarrow> string" where
  "TrimSuffix s p = (if HasSuffix s p then take (length s - length p) s else s)"

text \<open>\<open>strings.CutSuffix\<close> returns the string without the suffix and whether it was found.\<close>

definition CutSuffix :: "string \<Rightarrow> string \<Rightarrow> string \<times> bool" where
  "CutSuffix s p = (if HasSuffix s p then (take (length s - length p) s, True) else (s, False))"

text \<open>\<open>strings.Index\<close>: the index of the first occurrence, \<open>None\<close> for Go's \<open>-1\<close>.\<close>

fun Index :: "string \<Rightarrow> string \<Rightarrow> nat option" where
  "Index [] sub = (if sub = [] then Some 0 else None)"
| "Index (c # s) sub =
     (if prefix sub (c # s) then Some 0 else map_option Suc (Index s sub))"

text \<open>\<open>strings.LastIndex\<close> for a separator of one byte.\<close>

fun LastIndexByte :: "string \<Rightarrow> char \<Rightarrow> nat option" where
  "LastIndexByte [] c = None"
| "LastIndexByte (x # s) c =
     (case LastIndexByte s c of
        Some i \<Rightarrow> Some (Suc i)
      | None \<Rightarrow> if x = c then Some 0 else None)"

text \<open>\<open>strings.Cut\<close>: the text before and after the first separator, and whether it occurs.\<close>

definition Cut :: "string \<Rightarrow> string \<Rightarrow> string \<times> string \<times> bool" where
  "Cut s sep =
     (case Index s sep of
        Some i \<Rightarrow> (take i s, drop (i + length sep) s, True)
      | None \<Rightarrow> (s, [], False))"

text \<open>
  \<open>strings.Split\<close> for a separator of one byte. The result always has at least one
  element: splitting the empty string gives one empty string.
\<close>

fun Split :: "string \<Rightarrow> char \<Rightarrow> string list" where
  "Split [] sep = [[]]"
| "Split (c # s) sep =
     (if c = sep then [] # Split s sep
      else (case Split s sep of
              [] \<Rightarrow> [[c]]
            | x # xs \<Rightarrow> (c # x) # xs))"

fun strings_Join :: "string list \<Rightarrow> string \<Rightarrow> string" where
  "strings_Join [] sep = []"
| "strings_Join [x] sep = x"
| "strings_Join (x # y # xs) sep = x @ sep @ strings_Join (y # xs) sep"

text \<open>\<open>strings.TrimLeft\<close> removes the leading bytes that occur in the cutset.\<close>

definition TrimLeft :: "string \<Rightarrow> string \<Rightarrow> string" where
  "TrimLeft s cutset = dropWhile (\<lambda>c. c \<in> set cutset) s"

text \<open>
  White space as \<open>unicode.IsSpace\<close> sees it below U+0080: tab, line feed, vertical tab,
  form feed, carriage return and space. The white space of Unicode beyond ASCII (U+0085,
  U+00A0, U+2000 and so on) is several bytes in UTF-8 and is not recognised by this
  byte-wise model.
\<close>

definition isSpace :: "char \<Rightarrow> bool" where
  "isSpace c = (c \<in> set [CHR 0x09, CHR 0x0A, CHR 0x0B, CHR 0x0C, CHR 0x0D, CHR '' ''])"

definition TrimSpace :: "string \<Rightarrow> string" where
  "TrimSpace s = rev (dropWhile isSpace (rev (dropWhile isSpace s)))"

definition isDigit :: "char \<Rightarrow> bool" where
  "isDigit c = (48 \<le> (of_char c :: nat) \<and> (of_char c :: nat) \<le> 57)"

subsection \<open>Letters, case and fields\<close>

text \<open>
  \<open>strings.ToUpper\<close> and \<open>strings.ToLower\<close> on ASCII letters; other bytes are left
  as they are. \<open>strings.Fields\<close> splits around runs of white space and returns no
  empty field.
\<close>

definition isLower :: "char \<Rightarrow> bool" where
  "isLower c = (97 \<le> (of_char c :: nat) \<and> (of_char c :: nat) \<le> 122)"

definition isUpper :: "char \<Rightarrow> bool" where
  "isUpper c = (65 \<le> (of_char c :: nat) \<and> (of_char c :: nat) \<le> 90)"

definition ToUpper :: "string \<Rightarrow> string" where
  "ToUpper s = map (\<lambda>c. if isLower c then char_of (of_char c - (32::nat)) else c) s"

definition ToLower :: "string \<Rightarrow> string" where
  "ToLower s = map (\<lambda>c. if isUpper c then char_of (of_char c + (32::nat)) else c) s"

fun fields_from :: "string \<Rightarrow> string \<Rightarrow> string list" where
  "fields_from cur [] = (if cur = [] then [] else [cur])"
| "fields_from cur (c # s) =
     (if isSpace c then (if cur = [] then fields_from [] s else cur # fields_from [] s)
      else fields_from (cur @ [c]) s)"

definition Fields :: "string \<Rightarrow> string list" where
  "Fields s = fields_from [] s"

subsection \<open>Package strconv\<close>

fun digits_value :: "int \<Rightarrow> string \<Rightarrow> int option" where
  "digits_value n [] = Some n"
| "digits_value n (c # s) =
     (if isDigit c then digits_value (n * 10 + (int (of_char c) - 48)) s else None)"

text \<open>
  \<open>strconv.Atoi\<close>: an optional sign followed by one or more decimal digits; \<open>None\<close>
  stands for a returned error (bad syntax, or a value outside the 64-bit \<open>int\<close>).
\<close>

definition Atoi :: "string \<Rightarrow> int option" where
  "Atoi s =
     (let neg = (s \<noteq> [] \<and> hd s = CHR ''-'');
          body = (if s \<noteq> [] \<and> (hd s = CHR ''-'' \<or> hd s = CHR ''+'') then tl s else s)
      in if body = [] then None
         else (case digits_value 0 body of
                 None \<Rightarrow> None
               | Some n \<Rightarrow>
                   (let v = (if neg then - n else n)
                    in if - (2 ^ 63) \<le> v \<and> v < 2 ^ 63 then Some v else None)))"

text \<open>The decimal digits of a natural number, as \<open>strconv.Itoa\<close> and the verb \<open>%d\<close> print them.\<close>

fun Itoa :: "nat \<Rightarrow> string" where
  "Itoa n = (if n < 10 then [char_of (48 + n)] else Itoa (n div 10) @ [char_of (48 + n mod 10)])"

declare Itoa.simps [simp del]

subsection \<open>Package path\<close>

text \<open>
  \<open>path.Clean\<close> processes the slash-separated elements of the path from left to right:
  an empty element and \<open>.\<close> are dropped; \<open>..\<close> removes the element before it when that
  is a real element, is dropped at the root of a rooted path, and is kept at the start of
  a relative path; any other element is kept. The result is \<open>.\<close> when nothing is left
  of a relative path. \<open>clean_elem\<close> holds the kept elements, the last one first.
\<close>

definition clean_elem :: "bool \<Rightarrow> string list \<Rightarrow> string \<Rightarrow> string list" where
  "clean_elem rooted out e =
     (if e = [] \<or> e = ''.'' then out
      else if e = ''..'' then
        (if out \<noteq> [] \<and> hd out \<noteq> ''..'' then tl out
         else if \<not> rooted then ''..'' # out
         else out)
      else e # out)"

definition render_path :: "bool \<Rightarrow> string list \<Rightarrow> string" where
  "render_path rooted elems =
     (if rooted then CHR ''/'' # strings_Join elems ''/''
      else if elems = [] then ''.''
      else strings_Join elems ''/'')"

definition Clean :: "string \<Rightarrow> string" where
  "Clean p =
     (if p = [] then ''.''
      else render_path (hd p = CHR ''/'')
             (rev (foldl (clean_elem (hd p = CHR ''/'')) [] (Split p (CHR ''/'')))))"

text \<open>
  \<open>path.Join\<close> joins the elements from the first non-empty one on with slashes and
  cleans the result; with no non-empty element the result is the empty string.
\<close>

definition path_Join :: "string list \<Rightarrow> string" where
  "path_Join elems =
     (case dropWhile (\<lambda>e. e = []) elems of
        [] \<Rightarrow> []
      | es \<Rightarrow> Clean (strings_Join es ''/''))"

text \<open>
  \<open>filepath.ToSlash\<close> replaces the separator of the operating system by a slash. The
  program runs on Linux, where the separator is the slash and the function returns its
  argument.
\<close>

definition ToSlash :: "string \<Rightarrow> string" where
  "ToSlash p = p"

section \<open>internal/pipeline/paths.go\<close>

record ManpagePaths =
  HTMLPath :: string
  GzipPath :: string
  Section :: int
  Language :: string

datatype path_error = MissingManSegment

definition parseSectionFromFilename :: "string \<Rightarrow> int" where
  "parseSectionFromFilename name0 =
     (let name = TrimSuffix name0 ''.gz'' in
      case LastIndexByte name (CHR ''.'') of
        None \<Rightarrow> 0
      | Some idx \<Rightarrow>
          if idx = length name - 1 then 0
          else (let sectionStr = TrimLeft (drop (idx + 1) name) ''man'' in
                if sectionStr = [] then 0
                else (case Atoi (take 1 sectionStr) of
                        None \<Rightarrow> 0
                      | Some section \<Rightarrow> section)))"

definition parseSection :: "string \<Rightarrow> int" where
  "parseSection manRel =
     (let parts = Split manRel (CHR ''/'') in
      if length parts = 0 then 0
      else (let sectionDir = TrimPrefix (hd parts) ''man'' in
            case Atoi sectionDir of
              None \<Rightarrow> parseSectionFromFilename (last parts)
            | Some section \<Rightarrow> section))"

definition ParseManpagePath :: "string \<Rightarrow> string \<Rightarrow> path_error + ManpagePaths" where
  "ParseManpagePath release relativePath =
     (case Index relativePath ''/man/'' of
        None \<Rightarrow> Inl MissingManSegment
      | Some idx \<Rightarrow>
          (let manRel0 = TrimPrefix (drop (idx + length ''/man/'') relativePath) ''/'';
               manRel1 = Clean (ToSlash manRel0);
               manRel = TrimPrefix manRel1 ''../'';
               lang = (case Cut manRel ''/'' of
                         (first, _, ok) \<Rightarrow>
                           if ok \<and> (length first < 4 \<or> take 3 first \<noteq> ''man''
                                     \<or> \<not> isDigit (first ! 3))
                           then first else []);
               base = TrimSuffix manRel ''.gz'';
               section = (if lang \<noteq> [] then parseSection (TrimPrefix base (lang @ ''/''))
                          else parseSection base)
           in Inr \<lparr> HTMLPath = path_Join [''manpages'', release, base] @ ''.html'',
                    GzipPath = path_Join [''manpages.gz'', release, base] @ ''.gz'',
                    Section = section,
                    Language = lang \<rparr>))"

definition normalizeHTMLExt :: "string \<Rightarrow> string" where
  "normalizeHTMLExt p0 =
     (let p = (case CutSuffix p0 ''.gz'' of (before, ok) \<Rightarrow> if ok then before else p0)
      in if \<not> HasSuffix p ''.html'' then p @ ''.html'' else p)"

definition ConvertSymlinkTarget :: "string \<Rightarrow> string" where
  "ConvertSymlinkTarget target = normalizeHTMLExt (Clean (ToSlash target))"

definition ConvertSoTarget :: "string \<Rightarrow> string" where
  "ConvertSoTarget target0 =
     (let target1 = TrimSpace target0;
          target2 = TrimPrefix target1 ''/'';
          target3 = Clean (path_Join [''..'', target2])
      in normalizeHTMLExt target3)"

section \<open>internal/search: the query sanitizer\<close>

text \<open>
  \<open>sanitizeQuery\<close> ranges over the runes of the query. Every rune outside ASCII is
  replaced by one space; here every byte outside ASCII is, so a rune of several bytes
  gives several spaces where the source gives one. The spaces are collapsed by
  \<open>Fields\<close>, and the returned query is the same.
\<close>

definition query_rune :: "char \<Rightarrow> char" where
  "query_rune r =
     (if isLower r \<or> isUpper r \<or> isDigit r
         \<or> r = CHR '' '' \<or> r = CHR ''-'' \<or> r = CHR ''_'' \<or> r = CHR ''.''
      then r else CHR '' '')"

definition query_term :: "string \<Rightarrow> string" where
  "query_term t =
     (let upper = ToUpper t in
      if upper = ''AND'' \<or> upper = ''OR'' \<or> upper = ''NOT'' then []
      else [CHR 0x22] @ t @ [CHR 0x22] @ ''*'')"

definition sanitizeQuery :: "string \<Rightarrow> string" where
  "sanitizeQuery q0 =
     (let q1 = TrimSpace q0 in
      if q1 = [] then []
      else (let q2 = TrimSpace (map query_rune q1) in
            if q2 = [] then []
            else (let terms = map query_term (Fields q2);
                      filtered = filter (\<lambda>t. t \<noteq> []) terms
                  in if length filtered = 0 then [] else strings_Join filtered '' '')))"

text \<open>
  The sanitizer in the words of the specification: lowercase the query, keep the
  characters of \<open>[A-Za-z0-9 _.-]\<close> and turn the others into spaces, drop the terms
  AND, OR and NOT, wrap each remaining token as a quoted prefix phrase.
\<close>

definition reserved_term :: "string \<Rightarrow> bool" where
  "reserved_term t = (ToUpper t \<in> set [''AND'', ''OR'', ''NOT''])"

definition prefix_phrase :: "string \<Rightarrow> string" where
  "prefix_phrase t = [CHR 0x22] @ t @ [CHR 0x22] @ ''*''"

definition spec_sanitizeQuery :: "string \<Rightarrow> string" where
  "spec_sanitizeQuery q =
     strings_Join
       (map prefix_phrase (filter (\<lambda>t. \<not> reserved_term t) (Fields (map query_rune (ToLower q)))))
       '' ''"

section \<open>internal/fetcher/fetcher.go\<close>

subsection \<open>The index parser\<close>

record Package =
  Name :: string
  Version :: string
  Filename :: string
  SHA1 :: string

datatype scan_error = ErrTooLong | ReadError

text \<open>
  The parser reads its input through a \<open>bufio.Scanner\<close> that splits lines
  (\<open>bufio.ScanLines\<close>): the input is cut at line feeds, a carriage return at the end
  of a line is dropped, and a last line without line feed is returned when it is not
  empty. The scanner's buffer is limited to 10 MiB: a line that does not fit stops the
  scan with \<open>ErrTooLong\<close>. The reader (the gzip stream of the download) delivers
  some bytes and may then fail; the scanner then reports that error once the delivered
  bytes are consumed.
\<close>

definition dropCR :: "string \<Rightarrow> string" where
  "dropCR l = (if l \<noteq> [] \<and> last l = CHR 0x0D then butlast l else l)"

definition raw_lines :: "string \<Rightarrow> string list" where
  "raw_lines data =
     (let parts = Split data (CHR 0x0A) in
      if last parts = [] then butlast parts else parts)"

definition maxTokenSize :: nat where
  "maxTokenSize = 10 * 1024 * 1024"

record reader =
  data :: string
  read_failed :: bool

definition scanner_lines :: "reader \<Rightarrow> string list" where
  "scanner_lines r = map dropCR (raw_lines (data r))"

definition scanner_Err :: "reader \<Rightarrow> scan_error option" where
  "scanner_Err r =
     (if list_ex (\<lambda>l. maxTokenSize \<le> length l) (raw_lines (data r)) then Some ErrTooLong
      else if read_failed r then Some ReadError
      else None)"

type_synonym field_map = "string \<Rightarrow> string"

definition no_fields :: field_map where
  "no_fields = (\<lambda>k. [])"

definition flush :: "field_map \<times> Package list \<Rightarrow> field_map \<times> Package list" where
  "flush st =
     (case st of (flds, results) \<Rightarrow>
        if flds ''Package'' = [] \<or> flds ''Filename'' = [] \<or> flds ''SHA1'' = []
        then (no_fields, results)
        else (no_fields,
              results @ [\<lparr> Name = flds ''Package'', Version = flds ''Version'',
                           Filename = flds ''Filename'', SHA1 = flds ''SHA1'' \<rparr>]))"

definition scan_line :: "field_map \<times> Package list \<Rightarrow> string \<Rightarrow> field_map \<times> Package list" where
  "scan_line st line =
     (if line = [] then flush st
      else (case Cut line '': '' of
              (key, val, found) \<Rightarrow>
                if \<not> found then st
                else if key \<in> set [''Package'', ''Version'', ''Filename'', ''SHA1'']
                then (case st of (flds, results) \<Rightarrow> (flds(key := val), results))
                else st))"

definition parsePackages :: "reader \<Rightarrow> scan_error + Package list" where
  "parsePackages r =
     (let st = flush (foldl scan_line (no_fields, []) (scanner_lines r)) in
      case scanner_Err r of
        Some e \<Rightarrow> Inl e
      | None \<Rightarrow> Inr (snd st))"

text \<open>
  The parser in terms of stanzas. A stanza is a maximal run of non-empty lines; the blank
  lines separate stanzas. The fields of a stanza are the values of its lines
  \<open>Key: value\<close> for the four retained keys, the last value of a key winning.
  \<open>stanza_packages\<close> is what the code keeps of a stanza; \<open>spec_stanza_packages\<close> is
  what the specification says: a stanza missing any of the four fields is dropped.
\<close>

fun stanzas :: "string list \<Rightarrow> string list list" where
  "stanzas [] = [[]]"
| "stanzas (l # ls) =
     (if l = [] then [] # stanzas ls
      else (case stanzas ls of
              [] \<Rightarrow> [[l]]
            | st # sts \<Rightarrow> (l # st) # sts))"

definition field_line :: "field_map \<Rightarrow> string \<Rightarrow> field_map" where
  "field_line flds line =
     (case Cut line '': '' of
        (key, val, found) \<Rightarrow>
          if found \<and> key \<in> set [''Package'', ''Version'', ''Filename'', ''SHA1'']
          then flds(key := val) else flds)"

definition stanza_fields :: "string list \<Rightarrow> field_map" where
  "stanza_fields st = foldl field_line no_fields st"

definition fields_package :: "field_map \<Rightarrow> Package" where
  "fields_package flds =
     \<lparr> Name = flds ''Package'', Version = flds ''Version'',
       Filename = flds ''Filename'', SHA1 = flds ''SHA1'' \<rparr>"

definition complete_package :: "field_map \<Rightarrow> Package list" where
  "complete_package flds =
     (if flds ''Package'' = [] \<or> flds ''Filename'' = [] \<or> flds ''SHA1'' = [] then []
      else [fields_package flds])"

definition stanza_packages :: "string list \<Rightarrow> Package list" where
  "stanza_packages st = complete_package (stanza_fields st)"

definition spec_stanza_packages :: "string list \<Rightarrow> Package list" where
  "spec_stanza_packages st =
     (let flds = stanza_fields st in
      if flds ''Package'' = [] \<or> flds ''Version'' = [] \<or> flds ''Filename'' = []
         \<or> flds ''SHA1'' = [] then []
      else [fields_package flds])"

text \<open>Two indexes: one whose only stanza has no Version, one with three stanzas.\<close>

definition no_version_index :: reader where
  "no_version_index =
     \<lparr> data = ''Package: foo'' @ [CHR 0x0A] @ ''Filename: pool/f/foo_1.deb'' @ [CHR 0x0A]
               @ ''SHA1: aaa'' @ [CHR 0x0A],
       read_failed = False \<rparr>"

definition three_stanza_index :: reader where
  "three_stanza_index =
     \<lparr> data = ''Package: foo'' @ [CHR 0x0A] @ ''Version: 2.0-1'' @ [CHR 0x0A]
               @ ''Filename: pool/f/foo_2.deb'' @ [CHR 0x0A] @ ''SHA1: aaa'' @ [CHR 0x0A]
               @ [CHR 0x0A]
               @ ''Package: nohash'' @ [CHR 0x0A] @ ''Version: 1.0'' @ [CHR 0x0A]
               @ ''Filename: pool/n/nohash_1.deb'' @ [CHR 0x0A]
               @ [CHR 0x0A]
               @ ''Package: bar'' @ [CHR 0x0A] @ ''Description: Version: none'' @ [CHR 0x0A]
               @ ''Filename: pool/b/bar_1.deb'' @ [CHR 0x0A] @ ''SHA1: bbb'' @ [CHR 0x0A],
       read_failed = False \<rparr>"

subsection \<open>Version comparison and the merge of the candidates\<close>


record Fetcher =
  Archive :: string
  Repos :: "string list"
  Archs :: "string list"
  Pockets :: "string list"
  WorkDir :: string












subsection \<open>Debian versions\<close>
















subsection \<open>Two archives\<close>


definition test_fetcher :: Fetcher where
  "test_fetcher = \<lparr> Archive = ''http://archive.test'', Repos = [''main''], Archs = [''amd64''],
       Pockets = [''-updates'', []], WorkDir = ''/tmp/work'' \<rparr>"








subsection \<open>Downloading a package\<close>

text \<open>
  \<open>FetchDeb\<close> creates the work directory and then tries the download up to three
  times. What the network and the file system do is given by an environment: whether the
  work directory can be created, how the attempt of each number ends (the request cannot
  be built, the transport fails, or a response arrives with a status code and the
  outcome of writing it to disk), whether the context is cancelled while waiting before
  an attempt, and whether \<open>ctx.Err()\<close> is set after an attempt. The function returns
  its result together with the trace of attempts and of waits, a wait of \<open>n\<close> seconds
  being \<open>time.After(n * time.Second)\<close>.

  \<open>filepath.Base\<close> is the last element of a path, trailing slashes removed.
\<close>

definition filepath_Base :: "string \<Rightarrow> string" where
  "filepath_Base p =
     (if p = [] then ''.''
      else (let q = rev (dropWhile (\<lambda>c. c = CHR ''/'') (rev p)) in
            if q = [] then ''/'' else last (Split q (CHR ''/''))))"

datatype write_result = CreateTempFails | CopyFails | RenameFails | Written

datatype attempt_result = BuildRequestFails | TransportFails | Response int write_result

datatype deb_error =
    CreateWorkDir | ContextError | BuildRequest | DownloadDeb | DownloadStatus int
  | CreateTempFile | WriteDebFile | RenameDebFile

datatype fetch_event = Attempt nat | Wait nat

record deb_env =
  TempDir :: string
  mkdir_ok :: bool
  attempt_result :: "nat \<Rightarrow> attempt_result"
  cancelled_during_wait :: "nat \<Rightarrow> bool"
  ctx_err_after :: "nat \<Rightarrow> bool"

definition download_attempt :: "attempt_result \<Rightarrow> deb_error option" where
  "download_attempt r =
     (case r of
        BuildRequestFails \<Rightarrow> Some BuildRequest
      | TransportFails \<Rightarrow> Some DownloadDeb
      | Response StatusCode w \<Rightarrow>
          if StatusCode < 200 \<or> 300 \<le> StatusCode then Some (DownloadStatus StatusCode)
          else (case w of
                  CreateTempFails \<Rightarrow> Some CreateTempFile
                | CopyFails \<Rightarrow> Some WriteDebFile
                | RenameFails \<Rightarrow> Some RenameDebFile
                | Written \<Rightarrow> None))"

fun fetch_attempts ::
  "deb_env \<Rightarrow> string \<Rightarrow> deb_error option \<Rightarrow> nat list \<Rightarrow> fetch_event list
   \<Rightarrow> (deb_error + string) \<times> fetch_event list" where
  "fetch_attempts env destPath lastErr [] tr =
     ((case lastErr of None \<Rightarrow> Inr [] | Some e \<Rightarrow> Inl e), tr)"
| "fetch_attempts env destPath lastErr (attempt # rest) tr =
     (if 0 < attempt \<and> cancelled_during_wait env attempt
      then (Inl ContextError, tr @ [Wait attempt])
      else (let tr1 = (if 0 < attempt then tr @ [Wait attempt] else tr) @ [Attempt attempt] in
            case download_attempt (attempt_result env attempt) of
              None \<Rightarrow> (Inr destPath, tr1)
            | Some e \<Rightarrow>
                if ctx_err_after env attempt then (Inl e, tr1)
                else fetch_attempts env destPath (Some e) rest tr1))"

definition FetchDeb ::
  "deb_env \<Rightarrow> Fetcher \<Rightarrow> string \<Rightarrow> (deb_error + string) \<times> fetch_event list" where
  "FetchDeb env f debURL =
     (let workDir = (if WorkDir f = [] then TempDir env else WorkDir f);
          destPath = path_Join [workDir, filepath_Base debURL]
      in if \<not> mkdir_ok env then (Inl CreateWorkDir, [])
         else fetch_attempts env destPath None [0, 1, 2] [])"

text \<open>
  Three environments: every attempt is answered with status 404; the first attempt fails
  in the transport and the second succeeds; the first attempt fails and the context is
  cancelled during the wait that follows.
\<close>

definition always_404 :: deb_env where
  "always_404 = \<lparr> TempDir = ''/tmp'', mkdir_ok = True,
      attempt_result = (\<lambda>i. Response 404 Written),
      cancelled_during_wait = (\<lambda>i. False), ctx_err_after = (\<lambda>i. False) \<rparr>"

definition reset_then_ok :: deb_env where
  "reset_then_ok = \<lparr> TempDir = ''/tmp'', mkdir_ok = True,
      attempt_result = (\<lambda>i. if i = 0 then TransportFails else Response 200 Written),
      cancelled_during_wait = (\<lambda>i. False), ctx_err_after = (\<lambda>i. False) \<rparr>"

definition cancelled_in_wait :: deb_env where
  "cancelled_in_wait = \<lparr> TempDir = ''/tmp'', mkdir_ok = True,
      attempt_result = (\<lambda>i. TransportFails),
      cancelled_during_wait = (\<lambda>i. True), ctx_err_after = (\<lambda>i. False) \<rparr>"

section \<open>internal/sitemap/sitemap.go\<close>

text \<open>
  The generator walks the output tree and writes XML files. The file system, the context
  and the clock are an environment: whether the sitemaps directory can be created, what
  \<open>os.ReadDir\<close> returns for a path (an error, which may be the one \<open>os.IsNotExist\<close>
  recognises, or the entries), whether an XML file can be written at a path, what the
  successive polls of \<open>ctx.Err()\<close> return, and the date the clock shows at its successive
  readings. The state holds the files written so far, the warnings logged so far, and the
  number of polls and of clock readings. An entry carries its modification date when
  \<open>entry.Info()\<close> succeeds. A file that cannot be written leaves nothing in the state.

  The generator logs through \<open>g.Logger\<close> without testing it: with no logger the first
  warning is a nil dereference, \<open>NilLoggerPanic\<close>. \<open>splitURLs\<close> does not return when
  its limit is 0 and the list is not empty (\<open>None\<close>); its only caller passes 50000.
  Both outcomes end the run and are never handled as the failure of a section.
\<close>

datatype fs_error = NotExist | PermissionDenied

record dir_entry =
  entry_Name :: string
  entry_IsDir :: bool
  entry_ModTime :: "string option"

record sitemapURL =
  Loc :: string
  LastMod :: string

datatype sitemap_doc = URLSet "sitemapURL list" | SitemapIndex "sitemapURL list"

datatype sitemap_error =
    CreateSitemapsDir | WriteStaticSitemap string | ContextCancelled
  | ReadReleaseDir string fs_error | ReadDirError fs_error | WriteXMLError string
  | NilLoggerPanic | SplitDoesNotReturn

datatype sitemap_warning =
    SectionError string string sitemap_error
  | LangSectionError string string string sitemap_error

record SitemapGenerator =
  Root :: string
  SiteURL :: string
  Logger :: bool

record sitemap_env =
  mkdir_sitemaps_ok :: bool
  read_dir :: "string \<Rightarrow> fs_error + dir_entry list"
  write_ok :: "string \<Rightarrow> bool"
  ctx_done :: "nat \<Rightarrow> bool"
  date_at :: "nat \<Rightarrow> string"

record sitemap_state =
  written :: "(string \<times> sitemap_doc) list"
  warnings :: "sitemap_warning list"
  polls :: nat
  clock_reads :: nat

definition fatal :: "sitemap_error \<Rightarrow> bool" where
  "fatal e = (e = NilLoggerPanic \<or> e = SplitDoesNotReturn)"

definition maxSitemapURLs :: nat where
  "maxSitemapURLs = 50000"

definition ctx_Err :: "sitemap_env \<Rightarrow> sitemap_state \<Rightarrow> bool \<times> sitemap_state" where
  "ctx_Err env s = (ctx_done env (polls s), s\<lparr>polls := Suc (polls s)\<rparr>)"

definition time_Now :: "sitemap_env \<Rightarrow> sitemap_state \<Rightarrow> string \<times> sitemap_state" where
  "time_Now env s = (date_at env (clock_reads s), s\<lparr>clock_reads := Suc (clock_reads s)\<rparr>)"

definition writeXML ::
  "sitemap_env \<Rightarrow> string \<Rightarrow> sitemap_doc \<Rightarrow> sitemap_state \<Rightarrow> sitemap_error option \<times> sitemap_state" where
  "writeXML env path v s =
     (if write_ok env path then (None, s\<lparr>written := written s @ [(path, v)]\<rparr>)
      else (Some (WriteXMLError path), s))"

definition writeSitemap ::
  "sitemap_env \<Rightarrow> string \<Rightarrow> sitemapURL list \<Rightarrow> sitemap_state \<Rightarrow> sitemap_error option \<times> sitemap_state" where
  "writeSitemap env path urls s = writeXML env path (URLSet urls) s"

fun chunks_of :: "nat \<Rightarrow> 'a list \<Rightarrow> 'a list list" where
  "chunks_of m xs = (if m = 0 \<or> xs = [] then [] else take m xs # chunks_of m (drop m xs))"

declare chunks_of.simps [simp del]

definition splitURLs :: "sitemapURL list \<Rightarrow> nat \<Rightarrow> sitemapURL list list option" where
  "splitURLs urls maxPerFile =
     (if length urls \<le> maxPerFile then Some [urls]
      else if maxPerFile = 0 then None
      else Some (chunks_of maxPerFile urls))"

fun collect_urls ::
  "sitemap_env \<Rightarrow> SitemapGenerator \<Rightarrow> string \<Rightarrow> string \<Rightarrow> string \<Rightarrow> dir_entry list
   \<Rightarrow> sitemapURL list \<Rightarrow> sitemap_state \<Rightarrow> (sitemap_error + sitemapURL list) \<times> sitemap_state" where
  "collect_urls env g release section lang [] urls s = (Inr urls, s)"
| "collect_urls env g release section lang (entry # entries) urls s =
     (case ctx_Err env s of
        (done, s1) \<Rightarrow>
          if done then (Inl ContextCancelled, s1)
          else if \<not> HasSuffix (entry_Name entry) ''.html''
          then collect_urls env g release section lang entries urls s1
          else (let urlPath =
                      (if lang \<noteq> []
                       then ''/manpages/'' @ release @ ''/'' @ lang @ ''/'' @ section @ ''/''
                              @ entry_Name entry
                       else ''/manpages/'' @ release @ ''/'' @ section @ ''/'' @ entry_Name entry);
                    lastmod = (case entry_ModTime entry of Some d \<Rightarrow> d | None \<Rightarrow> [])
                in collect_urls env g release section lang entries
                     (urls @ [\<lparr> Loc = SiteURL g @ urlPath, LastMod = lastmod \<rparr>]) s1))"

fun write_chunks ::
  "sitemap_env \<Rightarrow> SitemapGenerator \<Rightarrow> string \<Rightarrow> string \<Rightarrow> string \<Rightarrow> string \<Rightarrow> string \<Rightarrow> nat
   \<Rightarrow> (nat \<times> sitemapURL list) list \<Rightarrow> sitemapURL list \<Rightarrow> sitemap_state
   \<Rightarrow> (sitemap_error + sitemapURL list) \<times> sitemap_state" where
  "write_chunks env g sitemapDir release section lang now n [] refs s = (Inr refs, s)"
| "write_chunks env g sitemapDir release section lang now n ((i, chunk) # chunks) refs s =
     (let filename0 =
            (if lang \<noteq> [] then ''sitemap-'' @ release @ ''-'' @ lang @ ''-'' @ section
             else ''sitemap-'' @ release @ ''-'' @ section);
          filename1 = (if 1 < n then filename0 @ ''-'' @ Itoa (i + 1) else filename0);
          filename = filename1 @ ''.xml''
      in case writeSitemap env (path_Join [sitemapDir, filename]) chunk s of
           (Some e, s1) \<Rightarrow> (Inl e, s1)
         | (None, s1) \<Rightarrow>
             write_chunks env g sitemapDir release section lang now n chunks
               (refs @ [\<lparr> Loc = SiteURL g @ ''/sitemaps/'' @ filename, LastMod = now \<rparr>]) s1)"

definition generateManSection ::
  "sitemap_env \<Rightarrow> SitemapGenerator \<Rightarrow> string \<Rightarrow> string \<Rightarrow> string \<Rightarrow> string \<Rightarrow> string
   \<Rightarrow> sitemap_state \<Rightarrow> (sitemap_error + sitemapURL list) \<times> sitemap_state" where
  "generateManSection env g sitemapDir release section sectionDir lang s =
     (case read_dir env sectionDir of
        Inl e \<Rightarrow> (Inl (ReadDirError e), s)
      | Inr entries \<Rightarrow>
          (case collect_urls env g release section lang entries [] s of
             (Inl e, s1) \<Rightarrow> (Inl e, s1)
           | (Inr urls, s1) \<Rightarrow>
               if length urls = 0 then (Inr [], s1)
               else (case time_Now env s1 of
                       (now, s2) \<Rightarrow>
                         (case splitURLs urls maxSitemapURLs of
                            None \<Rightarrow> (Inl SplitDoesNotReturn, s2)
                          | Some chunks \<Rightarrow>
                              write_chunks env g sitemapDir release section lang now
                                (length chunks) (zip [0..<length chunks] chunks) [] s2))))"

fun lang_sections ::
  "sitemap_env \<Rightarrow> SitemapGenerator \<Rightarrow> string \<Rightarrow> string \<Rightarrow> string \<Rightarrow> string \<Rightarrow> dir_entry list
   \<Rightarrow> sitemapURL list \<Rightarrow> sitemap_state \<Rightarrow> (sitemap_error + sitemapURL list) \<times> sitemap_state" where
  "lang_sections env g sitemapDir release dirName dirPath [] refs s = (Inr refs, s)"
| "lang_sections env g sitemapDir release dirName dirPath (entry # entries) refs s =
     (if \<not> entry_IsDir entry \<or> \<not> HasPrefix (entry_Name entry) ''man''
      then lang_sections env g sitemapDir release dirName dirPath entries refs s
      else (case generateManSection env g sitemapDir release (entry_Name entry)
                   (path_Join [dirPath, entry_Name entry]) dirName s of
              (Inl e, s1) \<Rightarrow>
                if fatal e then (Inl e, s1)
                else if \<not> Logger g then (Inl NilLoggerPanic, s1)
                else lang_sections env g sitemapDir release dirName dirPath entries refs
                       (s1\<lparr>warnings := warnings s1
                              @ [LangSectionError release dirName (entry_Name entry) e]\<rparr>)
            | (Inr r, s1) \<Rightarrow>
                lang_sections env g sitemapDir release dirName dirPath entries (refs @ r) s1))"

definition generateSection ::
  "sitemap_env \<Rightarrow> SitemapGenerator \<Rightarrow> string \<Rightarrow> string \<Rightarrow> string \<Rightarrow> string
   \<Rightarrow> sitemap_state \<Rightarrow> (sitemap_error + sitemapURL list) \<times> sitemap_state" where
  "generateSection env g sitemapDir release dirName dirPath s =
     (if HasPrefix dirName ''man''
      then generateManSection env g sitemapDir release dirName dirPath [] s
      else (case read_dir env dirPath of
              Inl e \<Rightarrow> (Inl (ReadDirError e), s)
            | Inr entries \<Rightarrow>
                lang_sections env g sitemapDir release dirName dirPath entries [] s))"

fun release_sections ::
  "sitemap_env \<Rightarrow> SitemapGenerator \<Rightarrow> string \<Rightarrow> string \<Rightarrow> string \<Rightarrow> dir_entry list
   \<Rightarrow> sitemapURL list \<Rightarrow> sitemap_state \<Rightarrow> (sitemap_error + sitemapURL list) \<times> sitemap_state" where
  "release_sections env g sitemapDir release releaseDir [] indexRefs s = (Inr indexRefs, s)"
| "release_sections env g sitemapDir release releaseDir (entry # entries) indexRefs s =
     (if \<not> entry_IsDir entry
      then release_sections env g sitemapDir release releaseDir entries indexRefs s
      else (case generateSection env g sitemapDir release (entry_Name entry)
                   (path_Join [releaseDir, entry_Name entry]) s of
              (Inl e, s1) \<Rightarrow>
                if fatal e then (Inl e, s1)
                else if \<not> Logger g then (Inl NilLoggerPanic, s1)
                else release_sections env g sitemapDir release releaseDir entries indexRefs
                       (s1\<lparr>warnings := warnings s1
                              @ [SectionError release (entry_Name entry) e]\<rparr>)
            | (Inr refs, s1) \<Rightarrow>
                release_sections env g sitemapDir release releaseDir entries
                  (indexRefs @ refs) s1))"

fun release_loop ::
  "sitemap_env \<Rightarrow> SitemapGenerator \<Rightarrow> string \<Rightarrow> string list \<Rightarrow> sitemapURL list
   \<Rightarrow> sitemap_state \<Rightarrow> (sitemap_error + sitemapURL list) \<times> sitemap_state" where
  "release_loop env g sitemapDir [] indexRefs s = (Inr indexRefs, s)"
| "release_loop env g sitemapDir (release # releases) indexRefs s =
     (case ctx_Err env s of
        (done, s1) \<Rightarrow>
          if done then (Inl ContextCancelled, s1)
          else (case read_dir env (path_Join [Root g, ''manpages'', release]) of
                  Inl e \<Rightarrow>
                    if e = NotExist then release_loop env g sitemapDir releases indexRefs s1
                    else (Inl (ReadReleaseDir release e), s1)
                | Inr entries \<Rightarrow>
                    (case release_sections env g sitemapDir release
                            (path_Join [Root g, ''manpages'', release]) entries indexRefs s1 of
                       (Inl e, s2) \<Rightarrow> (Inl e, s2)
                     | (Inr refs, s2) \<Rightarrow> release_loop env g sitemapDir releases refs s2)))"

definition initial_state :: sitemap_state where
  "initial_state = \<lparr> written = [], warnings = [], polls = 0, clock_reads = 0 \<rparr>"

definition Generate ::
  "sitemap_env \<Rightarrow> SitemapGenerator \<Rightarrow> string list \<Rightarrow> sitemap_error option \<times> sitemap_state" where
  "Generate env g releases =
     (let sitemapDir = path_Join [Root g, ''sitemaps''] in
      if \<not> mkdir_sitemaps_ok env then (Some CreateSitemapsDir, initial_state)
      else (case time_Now env initial_state of
              (now, s0) \<Rightarrow>
                (let staticURLs =
                       [\<lparr> Loc = SiteURL g @ ''/'', LastMod = now \<rparr>,
                        \<lparr> Loc = SiteURL g @ ''/search'', LastMod = now \<rparr>,
                        \<lparr> Loc = SiteURL g @ ''/manpages/'', LastMod = now \<rparr>]
                       @ map (\<lambda>rel. \<lparr> Loc = SiteURL g @ ''/manpages/'' @ rel @ ''/'',
                                       LastMod = now \<rparr>) releases;
                     staticFile = ''sitemap-static.xml''
                 in case writeSitemap env (path_Join [sitemapDir, staticFile]) staticURLs s0 of
                      (Some e, s1) \<Rightarrow> (Some (WriteStaticSitemap staticFile), s1)
                    | (None, s1) \<Rightarrow>
                        (case release_loop env g sitemapDir releases
                                [\<lparr> Loc = SiteURL g @ ''/sitemaps/'' @ staticFile, LastMod = now \<rparr>]
                                s1 of
                           (Inl e, s2) \<Rightarrow> (Some e, s2)
                         | (Inr indexRefs, s2) \<Rightarrow>
                             writeXML env (path_Join [sitemapDir, ''sitemap-index.xml''])
                               (SitemapIndex indexRefs) s2))))"

text \<open>
  What a run logs, read off the tree. \<open>section_urls\<close> are the URLs of a man section: one
  for each entry whose name ends in \<open>.html\<close>. \<open>chunk_file\<close> is the name of the file for chunk
  \<open>i\<close> of \<open>n\<close>. \<open>man_section_failure\<close> is the error that the generation of a man section
  ends with, if any, when the context is not cancelled: its directory cannot be listed, or
  the first of its files that cannot be written.
\<close>

definition section_urls ::
  "SitemapGenerator \<Rightarrow> string \<Rightarrow> string \<Rightarrow> string \<Rightarrow> dir_entry list \<Rightarrow> sitemapURL list" where
  "section_urls g release section lang entries =
     map (\<lambda>entry.
            \<lparr> Loc = SiteURL g @
                (if lang \<noteq> []
                 then ''/manpages/'' @ release @ ''/'' @ lang @ ''/'' @ section @ ''/''
                        @ entry_Name entry
                 else ''/manpages/'' @ release @ ''/'' @ section @ ''/'' @ entry_Name entry),
              LastMod = (case entry_ModTime entry of Some d \<Rightarrow> d | None \<Rightarrow> []) \<rparr>)
       (filter (\<lambda>entry. HasSuffix (entry_Name entry) ''.html'') entries)"

definition chunk_file :: "string \<Rightarrow> string \<Rightarrow> string \<Rightarrow> nat \<Rightarrow> nat \<Rightarrow> string" where
  "chunk_file release section lang n i =
     (if lang \<noteq> [] then ''sitemap-'' @ release @ ''-'' @ lang @ ''-'' @ section
      else ''sitemap-'' @ release @ ''-'' @ section)
     @ (if 1 < n then ''-'' @ Itoa (i + 1) else []) @ ''.xml''"

definition man_section_failure ::
  "sitemap_env \<Rightarrow> SitemapGenerator \<Rightarrow> string \<Rightarrow> string \<Rightarrow> string \<Rightarrow> string \<Rightarrow> string
   \<Rightarrow> sitemap_error option" where
  "man_section_failure env g sitemapDir release section sectionDir lang =
     (case read_dir env sectionDir of
        Inl e \<Rightarrow> Some (ReadDirError e)
      | Inr entries \<Rightarrow>
          if section_urls g release section lang entries = [] then None
          else (case splitURLs (section_urls g release section lang entries) maxSitemapURLs of
                  None \<Rightarrow> Some SplitDoesNotReturn
                | Some chunks \<Rightarrow>
                    (case find (\<lambda>i. \<not> write_ok env
                                   (path_Join [sitemapDir,
                                      chunk_file release section lang (length chunks) i]))
                            [0..<length chunks] of
                       None \<Rightarrow> None
                     | Some i \<Rightarrow>
                         Some (WriteXMLError
                                 (path_Join [sitemapDir,
                                    chunk_file release section lang (length chunks) i])))))"

text \<open>
  The warnings of a language directory (one for each of its man sections that fails), of an
  entry of a release directory (a man section that fails, a language directory that cannot be
  listed, or else the warnings of the language directory) and of a release.
\<close>

definition lang_warnings ::
  "sitemap_env \<Rightarrow> SitemapGenerator \<Rightarrow> string \<Rightarrow> string \<Rightarrow> string \<Rightarrow> string \<Rightarrow> dir_entry list
   \<Rightarrow> sitemap_warning list" where
  "lang_warnings env g sitemapDir release dirName dirPath entries =
     concat (map (\<lambda>entry.
        if entry_IsDir entry \<and> HasPrefix (entry_Name entry) ''man''
        then (case man_section_failure env g sitemapDir release (entry_Name entry)
                     (path_Join [dirPath, entry_Name entry]) dirName of
                None \<Rightarrow> []
              | Some e \<Rightarrow> [LangSectionError release dirName (entry_Name entry) e])
        else []) entries)"

definition section_warnings ::
  "sitemap_env \<Rightarrow> SitemapGenerator \<Rightarrow> string \<Rightarrow> string \<Rightarrow> string \<Rightarrow> dir_entry
   \<Rightarrow> sitemap_warning list" where
  "section_warnings env g sitemapDir release releaseDir entry =
     (if \<not> entry_IsDir entry then []
      else if HasPrefix (entry_Name entry) ''man''
      then (case man_section_failure env g sitemapDir release (entry_Name entry)
                   (path_Join [releaseDir, entry_Name entry]) [] of
              None \<Rightarrow> []
            | Some e \<Rightarrow> [SectionError release (entry_Name entry) e])
      else (case read_dir env (path_Join [releaseDir, entry_Name entry]) of
              Inl e \<Rightarrow> [SectionError release (entry_Name entry) (ReadDirError e)]
            | Inr sub \<Rightarrow>
                lang_warnings env g sitemapDir release (entry_Name entry)
                  (path_Join [releaseDir, entry_Name entry]) sub))"

definition release_warnings ::
  "sitemap_env \<Rightarrow> SitemapGenerator \<Rightarrow> string \<Rightarrow> sitemap_warning list" where
  "release_warnings env g release =
     (case read_dir env (path_Join [Root g, ''manpages'', release]) of
        Inl e \<Rightarrow> []
      | Inr entries \<Rightarrow>
          concat (map (section_warnings env g (path_Join [Root g, ''sitemaps'']) release
                         (path_Join [Root g, ''manpages'', release])) entries))"

text \<open>
  A release is unreadable when listing its directory fails with an error other than
  \<open>os.IsNotExist\<close>. \<open>is_urlset\<close> holds of a written file that is not a sitemap index.
\<close>

definition unreadable :: "sitemap_env \<Rightarrow> SitemapGenerator \<Rightarrow> string \<Rightarrow> bool" where
  "unreadable env g release =
     (case read_dir env (path_Join [Root g, ''manpages'', release]) of
        Inl e \<Rightarrow> e \<noteq> NotExist
      | Inr entries \<Rightarrow> False)"

definition is_urlset :: "string \<times> sitemap_doc \<Rightarrow> bool" where
  "is_urlset f = (case snd f of URLSet urls \<Rightarrow> True | SitemapIndex refs \<Rightarrow> False)"

text \<open>
  Two trees under \<open>/www\<close>. In the first the release directory of \<open>noble\<close> cannot be
  read. In the second it lists \<open>man1\<close> (which cannot be read), \<open>man3\<close>, the language
  directory \<open>de\<close> (whose \<open>man8\<close> cannot be read), the language directory \<open>fr\<close> (which
  cannot be read) and \<open>man5\<close> (whose sitemap cannot be written); the release directory of
  \<open>plucky\<close> cannot be read and that of any other release does not exist.
\<close>

definition html_root :: SitemapGenerator where
  "html_root = \<lparr> Root = ''/www'', SiteURL = ''https://manpages.test'', Logger = True \<rparr>"

definition file_entry :: "string \<Rightarrow> dir_entry" where
  "file_entry n = \<lparr> entry_Name = n, entry_IsDir = False, entry_ModTime = Some ''2025-07-30'' \<rparr>"

definition dir_entry :: "string \<Rightarrow> dir_entry" where
  "dir_entry n = \<lparr> entry_Name = n, entry_IsDir = True, entry_ModTime = Some ''2025-07-30'' \<rparr>"

definition unreadable_release :: sitemap_env where
  "unreadable_release = \<lparr> mkdir_sitemaps_ok = True,
      read_dir = (\<lambda>p. if p = ''/www/manpages/noble'' then Inl PermissionDenied else Inl NotExist),
      write_ok = (\<lambda>p. True), ctx_done = (\<lambda>k. False), date_at = (\<lambda>k. ''2025-08-01'') \<rparr>"

definition failing_sections :: sitemap_env where
  "failing_sections = \<lparr> mkdir_sitemaps_ok = True,
      read_dir = (\<lambda>p. if p = ''/www/manpages/noble''
                         then Inr [dir_entry ''man1'', dir_entry ''man3'', dir_entry ''de'',
                                   dir_entry ''fr'', dir_entry ''man5'']
                       else if p = ''/www/manpages/noble/man1'' then Inl PermissionDenied
                       else if p = ''/www/manpages/noble/man3''
                         then Inr [file_entry ''printf.3.html'', file_entry ''x.txt'']
                       else if p = ''/www/manpages/noble/de''
                         then Inr [dir_entry ''man1'', dir_entry ''man8'', file_entry ''README'']
                       else if p = ''/www/manpages/noble/de/man1'' then Inr [file_entry ''ls.1.html'']
                       else if p = ''/www/manpages/noble/de/man8'' then Inl PermissionDenied
                       else if p = ''/www/manpages/noble/fr'' then Inl PermissionDenied
                       else if p = ''/www/manpages/noble/man5'' then Inr [file_entry ''passwd.5.html'']
                       else if p = ''/www/manpages/plucky'' then Inl PermissionDenied
                       else Inl NotExist),
      write_ok = (\<lambda>p. p \<noteq> ''/www/sitemaps/sitemap-noble-man5.xml''),
      ctx_done = (\<lambda>k. False), date_at = (\<lambda>k. ''2025-08-01'') \<rparr>"

section \<open>The pipeline runner\<close>

text \<open>
  \<open>processPackage\<close>, \<open>processManpage\<close> and \<open>ProcessSingleManpage\<close> of package
  \<open>pipeline\<close>, with the storage of \<open>internal/storage/storage_fs.go\<close>. What lies
  outside these functions is an environment: the download of a package (the environment
  of \<open>FetchDeb\<close> for its path), the extraction of the manpages of a downloaded package,
  the detection of a leading \<open>.so\<close> directive (\<open>None\<close> for a read error,
  \<open>Some None\<close> for a page without directive), the converter (\<open>None\<close> for a failed
  conversion), the transformer \<open>transform.Pipeline\<close> (the body and the title of the
  fragment, \<open>None\<close> for an error) and \<open>transform.StripHTMLTags\<close>, the reading of the
  compressed source, whether the storage fails at a path (creating the directories,
  removing what is there, or writing; a failed write happens after the removal), and
  whether the indexer refuses a document.

  The state holds the files under the public root (regular files and symbolic links by
  full path), the documents handed to the indexer, the failures recorded for the release,
  and the counters of skipped packages and of errors. The removal of the downloaded
  package and of the extraction directory, which are outside the public root, and the
  log messages are not part of the state.
\<close>

record ManpageMeta =
  PackageName :: string
  PackageVersion :: string
  SourcePackage :: string
  MetaFilename :: string

record ManpageFile =
  Path :: string
  RelativePath :: string
  IsSymlink :: bool
  SymlinkTarget :: string
  Meta :: ManpageMeta

record Document =
  doc_Title :: string
  doc_Path :: string
  doc_Section :: int
  doc_Distro :: string
  doc_Language :: string
  doc_Content :: string

datatype fs_node = RegularFile string | SymlinkTo string

datatype storage_failure = MkdirFails | RemoveFails | WriteFails

datatype storage_error = CacheReleaseRequired | Mkdir | RemoveExisting | WriteFile | SymlinkFailed

datatype pipeline_error =
    FetchDebError deb_error
  | ExtractError
  | ParsePathError path_error
  | WriteHTMLSymlinkError storage_error
  | WriteGzipSymlinkError storage_error
  | DetectSoLinkError
  | ConvertError
  | TransformError
  | WriteHTMLError storage_error
  | IndexError
  | ReadGzipError
  | WriteGzipError storage_error
  | WriteCacheError storage_error

datatype failure = Failure string string pipeline_error

record pipeline_env =
  download :: "string \<Rightarrow> deb_env"
  extract_manpages :: "string \<Rightarrow> ManpageFile list option"
  detect_so :: "string \<Rightarrow> string option option"
  convert_manpage :: "string \<Rightarrow> string option"
  transform_pipeline :: "string \<Rightarrow> string \<Rightarrow> ManpageMeta \<Rightarrow> (string \<times> string) option"
  strip_tags :: "string \<Rightarrow> string"
  read_file :: "string \<Rightarrow> string option"
  storage_fails :: "string \<Rightarrow> storage_failure option"
  index_fails :: "Document \<Rightarrow> bool"

record Runner =
  StorageRoot :: string
  HasIndexer :: bool
  ForceProcess :: bool

record pipeline_state =
  files :: "string \<rightharpoonup> fs_node"
  indexed :: "Document list"
  failures :: "failure list"
  Skipped :: nat
  Errors :: nat

definition writeFileAbsolute ::
  "pipeline_env \<Rightarrow> string \<Rightarrow> string \<Rightarrow> pipeline_state \<Rightarrow> storage_error option \<times> pipeline_state" where
  "writeFileAbsolute env fullPath content s =
     (case storage_fails env fullPath of
        Some MkdirFails \<Rightarrow> (Some Mkdir, s)
      | Some RemoveFails \<Rightarrow> (Some RemoveExisting, s)
      | Some WriteFails \<Rightarrow> (Some WriteFile, s\<lparr>files := (files s)(fullPath := None)\<rparr>)
      | None \<Rightarrow> (None, s\<lparr>files := (files s)(fullPath \<mapsto> RegularFile content)\<rparr>))"

definition writeFile ::
  "pipeline_env \<Rightarrow> Runner \<Rightarrow> string \<Rightarrow> string \<Rightarrow> pipeline_state \<Rightarrow> storage_error option \<times> pipeline_state" where
  "writeFile env r destPath content s =
     writeFileAbsolute env (path_Join [StorageRoot r, destPath]) content s"

definition writeSymlink ::
  "pipeline_env \<Rightarrow> Runner \<Rightarrow> string \<Rightarrow> string \<Rightarrow> pipeline_state \<Rightarrow> storage_error option \<times> pipeline_state" where
  "writeSymlink env r destPath target s =
     (let fullPath = path_Join [StorageRoot r, destPath] in
      case storage_fails env fullPath of
        Some MkdirFails \<Rightarrow> (Some Mkdir, s)
      | Some RemoveFails \<Rightarrow> (Some RemoveExisting, s)
      | Some WriteFails \<Rightarrow> (Some SymlinkFailed, s\<lparr>files := (files s)(fullPath := None)\<rparr>)
      | None \<Rightarrow> (None, s\<lparr>files := (files s)(fullPath \<mapsto> SymlinkTo target)\<rparr>))"

definition cachePath :: "Runner \<Rightarrow> string \<Rightarrow> string \<Rightarrow> string" where
  "cachePath r release pkgName = path_Join [StorageRoot r, ''manpages'', release, ''.cache'', pkgName]"

definition CheckCache :: "Runner \<Rightarrow> string \<Rightarrow> string \<Rightarrow> string \<Rightarrow> pipeline_state \<Rightarrow> bool" where
  "CheckCache r release pkgName sha1 s =
     (case files s (cachePath r release pkgName) of
        Some (RegularFile d) \<Rightarrow> d = sha1
      | _ \<Rightarrow> False)"

definition WriteCache ::
  "pipeline_env \<Rightarrow> Runner \<Rightarrow> string \<Rightarrow> string \<Rightarrow> string \<Rightarrow> pipeline_state
   \<Rightarrow> storage_error option \<times> pipeline_state" where
  "WriteCache env r release pkgName sha1 s =
     (if release = [] then (Some CacheReleaseRequired, s)
      else writeFileAbsolute env (cachePath r release pkgName) sha1 s)"

definition ProcessSingleManpage ::
  "pipeline_env \<Rightarrow> Runner \<Rightarrow> string \<Rightarrow> ManpageFile \<Rightarrow> pipeline_state
   \<Rightarrow> pipeline_error option \<times> pipeline_state" where
  "ProcessSingleManpage env r release manpage s =
     (case ParseManpagePath release (RelativePath manpage) of
        Inl e \<Rightarrow> (Some (ParsePathError e), s)
      | Inr paths \<Rightarrow>
          if IsSymlink manpage then
            (case writeSymlink env r (HTMLPath paths) (ConvertSymlinkTarget (SymlinkTarget manpage)) s of
               (Some e, s1) \<Rightarrow> (Some (WriteHTMLSymlinkError e), s1)
             | (None, s1) \<Rightarrow>
                 (case writeSymlink env r (GzipPath paths) (SymlinkTarget manpage) s1 of
                    (Some e, s2) \<Rightarrow> (Some (WriteGzipSymlinkError e), s2)
                  | (None, s2) \<Rightarrow> (None, s2)))
          else
            (case detect_so env (Path manpage) of
               None \<Rightarrow> (Some DetectSoLinkError, s)
             | Some (Some target) \<Rightarrow>
                 (case writeSymlink env r (HTMLPath paths) (ConvertSoTarget target) s of
                    (Some e, s1) \<Rightarrow> (Some (WriteHTMLSymlinkError e), s1)
                  | (None, s1) \<Rightarrow> (None, s1))
             | Some None \<Rightarrow>
                 (case convert_manpage env (Path manpage) of
                    None \<Rightarrow> (Some ConvertError, s)
                  | Some rawHTML \<Rightarrow>
                      (case transform_pipeline env release rawHTML
                              ((Meta manpage)\<lparr>MetaFilename := filepath_Base (RelativePath manpage)\<rparr>) of
                         None \<Rightarrow> (Some TransformError, s)
                       | Some (body, title) \<Rightarrow>
                           (case writeFile env r (HTMLPath paths) body s of
                              (Some e, s1) \<Rightarrow> (Some (WriteHTMLError e), s1)
                            | (None, s1) \<Rightarrow>
                                (let doc = \<lparr> doc_Title = title, doc_Path = ''/'' @ HTMLPath paths,
                                             doc_Section = Section paths, doc_Distro = release,
                                             doc_Language = Language paths,
                                             doc_Content = strip_tags env body \<rparr> in
                                 if HasIndexer r \<and> index_fails env doc then (Some IndexError, s1)
                                 else (let s2 = (if HasIndexer r then s1\<lparr>indexed := indexed s1 @ [doc]\<rparr>
                                                 else s1) in
                                       case read_file env (Path manpage) of
                                         None \<Rightarrow> (Some ReadGzipError, s2)
                                       | Some content \<Rightarrow>
                                           (case writeFile env r (GzipPath paths) content s2 of
                                              (Some e, s3) \<Rightarrow> (Some (WriteGzipError e), s3)
                                            | (None, s3) \<Rightarrow> (None, s3)))))))))"

definition recordFailure ::
  "string \<Rightarrow> string \<Rightarrow> pipeline_error \<Rightarrow> pipeline_state \<Rightarrow> pipeline_state" where
  "recordFailure stage path err s =
     s\<lparr>failures := failures s @ [Failure stage path err], Errors := Suc (Errors s)\<rparr>"

definition processManpage ::
  "pipeline_env \<Rightarrow> Runner \<Rightarrow> string \<Rightarrow> ManpageFile \<Rightarrow> pipeline_state
   \<Rightarrow> pipeline_error option \<times> pipeline_state" where
  "processManpage env r release manpage s =
     (case ProcessSingleManpage env r release manpage s of
        (Some err, s1) \<Rightarrow>
          if err = ConvertError
          then (None, recordFailure ''convert'' (Path manpage) err s1)
          else (Some err, s1)
      | (None, s1) \<Rightarrow> (None, s1))"

fun process_manpages ::
  "pipeline_env \<Rightarrow> Runner \<Rightarrow> string \<Rightarrow> ManpageFile list \<Rightarrow> pipeline_state
   \<Rightarrow> pipeline_error option \<times> pipeline_state" where
  "process_manpages env r release [] s = (None, s)"
| "process_manpages env r release (manpage # manpages) s =
     (case processManpage env r release manpage s of
        (Some err, s1) \<Rightarrow> (Some err, s1)
      | (None, s1) \<Rightarrow> process_manpages env r release manpages s1)"

definition processPackage ::
  "pipeline_env \<Rightarrow> Runner \<Rightarrow> Fetcher \<Rightarrow> string \<Rightarrow> Package \<Rightarrow> pipeline_state
   \<Rightarrow> pipeline_error option \<times> pipeline_state" where
  "processPackage env r f release pkg s =
     (if \<not> ForceProcess r \<and> Name pkg \<noteq> [] \<and> SHA1 pkg \<noteq> []
         \<and> CheckCache r release (Name pkg) (SHA1 pkg) s
      then (None, s\<lparr>Skipped := Suc (Skipped s)\<rparr>)
      else (case fst (FetchDeb (download env (Filename pkg)) f (Filename pkg)) of
              Inl e \<Rightarrow> (Some (FetchDebError e), s)
            | Inr debPath \<Rightarrow>
                (case extract_manpages env debPath of
                   None \<Rightarrow> (Some ExtractError, s)
                 | Some manpages \<Rightarrow>
                     (case process_manpages env r release manpages s of
                        (Some err, s1) \<Rightarrow> (Some err, s1)
                      | (None, s1) \<Rightarrow>
                          if Name pkg \<noteq> [] \<and> SHA1 pkg \<noteq> []
                          then (case WriteCache env r release (Name pkg) (SHA1 pkg) s1 of
                                  (Some e, s2) \<Rightarrow> (Some (WriteCacheError e), s2)
                                | (None, s2) \<Rightarrow> (None, s2))
                          else (None, s1)))))"

text \<open>
  The full paths that processing a manpage may write: the HTML path and, except for a page
  with a \<open>.so\<close> directive, the path of the compressed source.
\<close>

definition artifacts :: "pipeline_env \<Rightarrow> Runner \<Rightarrow> string \<Rightarrow> ManpageFile \<Rightarrow> string list" where
  "artifacts env r release manpage =
     (case ParseManpagePath release (RelativePath manpage) of
        Inl e \<Rightarrow> []
      | Inr paths \<Rightarrow>
          if IsSymlink manpage
          then [path_Join [StorageRoot r, HTMLPath paths], path_Join [StorageRoot r, GzipPath paths]]
          else (case detect_so env (Path manpage) of
                  Some (Some target) \<Rightarrow> [path_Join [StorageRoot r, HTMLPath paths]]
                | _ \<Rightarrow> [path_Join [StorageRoot r, HTMLPath paths],
                        path_Join [StorageRoot r, GzipPath paths]]))"

text \<open>
  What is stored under these paths when the manpage is processed without error: two
  symbolic links for a symbolic link, one for a page with a \<open>.so\<close> directive, and otherwise
  the transformed fragment and the compressed source. \<open>stored\<close> writes a list of such files
  over a file system, in order.
\<close>

definition artifact_nodes ::
  "pipeline_env \<Rightarrow> Runner \<Rightarrow> string \<Rightarrow> ManpageFile \<Rightarrow> (string \<times> fs_node) list" where
  "artifact_nodes env r release manpage =
     (case ParseManpagePath release (RelativePath manpage) of
        Inl e \<Rightarrow> []
      | Inr paths \<Rightarrow>
          if IsSymlink manpage
          then [(path_Join [StorageRoot r, HTMLPath paths],
                   SymlinkTo (ConvertSymlinkTarget (SymlinkTarget manpage))),
                (path_Join [StorageRoot r, GzipPath paths], SymlinkTo (SymlinkTarget manpage))]
          else (case detect_so env (Path manpage) of
                  None \<Rightarrow> []
                | Some (Some target) \<Rightarrow>
                    [(path_Join [StorageRoot r, HTMLPath paths], SymlinkTo (ConvertSoTarget target))]
                | Some None \<Rightarrow>
                    (case convert_manpage env (Path manpage) of
                       None \<Rightarrow> []
                     | Some rawHTML \<Rightarrow>
                         (case transform_pipeline env release rawHTML
                                 ((Meta manpage)\<lparr>MetaFilename := filepath_Base (RelativePath manpage)\<rparr>) of
                            None \<Rightarrow> []
                          | Some (body, title) \<Rightarrow>
                              (case read_file env (Path manpage) of
                                 None \<Rightarrow> []
                               | Some content \<Rightarrow>
                                   [(path_Join [StorageRoot r, HTMLPath paths], RegularFile body),
                                    (path_Join [StorageRoot r, GzipPath paths], RegularFile content)])))))"

definition stored :: "(string \<rightharpoonup> fs_node) \<Rightarrow> (string \<times> fs_node) list \<Rightarrow> (string \<rightharpoonup> fs_node)" where
  "stored fs nodes = foldl (\<lambda>f (p, n). f(p \<mapsto> n)) fs nodes"

text \<open>
  The outcome of a manpage is the error of \<open>ProcessSingleManpage\<close> on it, if any; it does not
  depend on the state the manpage is processed in (lemma \<open>outcome_any_state\<close> below). A
  manpage fails fatally when its outcome is an error other than \<open>ConvertError\<close>: that is
  the error \<open>processManpage\<close> returns. Of a list of manpages, \<open>stored_artifacts\<close> are the
  files of those processed without error and \<open>conversion_failures\<close> the failures recorded
  for those that fail conversion; \<open>processed_manpages\<close> are the manpages before the first
  that fails fatally, and \<open>first_error\<close> is the error of that one.
\<close>

definition outcome ::
  "pipeline_env \<Rightarrow> Runner \<Rightarrow> string \<Rightarrow> pipeline_state \<Rightarrow> ManpageFile \<Rightarrow> pipeline_error option" where
  "outcome env r release s m = fst (ProcessSingleManpage env r release m s)"

definition fails_fatally ::
  "pipeline_env \<Rightarrow> Runner \<Rightarrow> string \<Rightarrow> pipeline_state \<Rightarrow> ManpageFile \<Rightarrow> bool" where
  "fails_fatally env r release s m =
     (case outcome env r release s m of
        None \<Rightarrow> False
      | Some err \<Rightarrow> err \<noteq> ConvertError)"

definition stored_artifacts ::
  "pipeline_env \<Rightarrow> Runner \<Rightarrow> string \<Rightarrow> pipeline_state \<Rightarrow> ManpageFile list \<Rightarrow> (string \<times> fs_node) list" where
  "stored_artifacts env r release s manpages =
     concat (map (artifact_nodes env r release)
               (filter (\<lambda>m. outcome env r release s m = None) manpages))"

definition conversion_failures ::
  "pipeline_env \<Rightarrow> Runner \<Rightarrow> string \<Rightarrow> pipeline_state \<Rightarrow> ManpageFile list \<Rightarrow> failure list" where
  "conversion_failures env r release s manpages =
     map (\<lambda>m. Failure ''convert'' (Path m) ConvertError)
       (filter (\<lambda>m. outcome env r release s m = Some ConvertError) manpages)"

definition processed_manpages ::
  "pipeline_env \<Rightarrow> Runner \<Rightarrow> string \<Rightarrow> pipeline_state \<Rightarrow> ManpageFile list \<Rightarrow> ManpageFile list" where
  "processed_manpages env r release s manpages =
     takeWhile (\<lambda>m. \<not> fails_fatally env r release s m) manpages"

definition first_error ::
  "pipeline_env \<Rightarrow> Runner \<Rightarrow> string \<Rightarrow> pipeline_state \<Rightarrow> ManpageFile list \<Rightarrow> pipeline_error option" where
  "first_error env r release s manpages =
     (case find (fails_fatally env r release s) manpages of
        None \<Rightarrow> None
      | Some bad \<Rightarrow> outcome env r release s bad)"

text \<open>
  Two packages. The first has two manpages, \<open>broken.1.gz\<close>, which the converter refuses,
  and \<open>ls.1.gz\<close>, which it converts; every other step succeeds. The second has
  \<open>ls.1.gz\<close>, \<open>broken.1.gz\<close> and \<open>cat.1.gz\<close>, whose compressed source cannot be read
  once its fragment is written.
\<close>

definition download_ok :: deb_env where
  "download_ok = \<lparr> TempDir = ''/tmp'', mkdir_ok = True,
      attempt_result = (\<lambda>i. Response 200 Written),
      cancelled_during_wait = (\<lambda>i. False), ctx_err_after = (\<lambda>i. False) \<rparr>"

definition coreutils :: Package where
  "coreutils = \<lparr> Name = ''coreutils'', Version = ''9.4-3'',
      Filename = ''pool/main/c/coreutils/coreutils_9.4-3.deb'', SHA1 = ''0a1b2c'' \<rparr>"

definition coreutils_meta :: ManpageMeta where
  "coreutils_meta = \<lparr> PackageName = ''coreutils'', PackageVersion = ''9.4-3'',
      SourcePackage = ''coreutils'', MetaFilename = [] \<rparr>"

definition broken_page :: ManpageFile where
  "broken_page = \<lparr> Path = ''/tmp/work/x/usr/share/man/man1/broken.1.gz'',
      RelativePath = ''./usr/share/man/man1/broken.1.gz'', IsSymlink = False,
      SymlinkTarget = [], Meta = coreutils_meta \<rparr>"

definition ls_page :: ManpageFile where
  "ls_page = \<lparr> Path = ''/tmp/work/x/usr/share/man/man1/ls.1.gz'',
      RelativePath = ''./usr/share/man/man1/ls.1.gz'', IsSymlink = False,
      SymlinkTarget = [], Meta = coreutils_meta \<rparr>"

definition one_broken_page :: pipeline_env where
  "one_broken_page = \<lparr>
      download = (\<lambda>url. download_ok),
      extract_manpages = (\<lambda>deb. if deb = ''/tmp/work/coreutils_9.4-3.deb''
                                  then Some [broken_page, ls_page] else None),
      detect_so = (\<lambda>p. Some None),
      convert_manpage = (\<lambda>p. if p = Path ls_page then Some ''<h1>NAME</h1><p>ls - list</p>''
                                else None),
      transform_pipeline = (\<lambda>release raw meta. Some (''<!--META:{}-->'', ''ls'')),
      strip_tags = (\<lambda>body. []),
      read_file = (\<lambda>p. Some ''gzip bytes''),
      storage_fails = (\<lambda>p. None),
      index_fails = (\<lambda>doc. False) \<rparr>"

definition www_runner :: Runner where
  "www_runner = \<lparr> StorageRoot = ''/www'', HasIndexer = True, ForceProcess = False \<rparr>"

definition empty_state :: pipeline_state where
  "empty_state = \<lparr> files = Map.empty, indexed = [], failures = [], Skipped = 0, Errors = 0 \<rparr>"

definition cat_page :: ManpageFile where
  "cat_page = \<lparr> Path = ''/tmp/work/x/usr/share/man/man1/cat.1.gz'',
      RelativePath = ''./usr/share/man/man1/cat.1.gz'', IsSymlink = False,
      SymlinkTarget = [], Meta = coreutils_meta \<rparr>"

definition one_unreadable_page :: pipeline_env where
  "one_unreadable_page = \<lparr>
      download = (\<lambda>url. download_ok),
      extract_manpages = (\<lambda>deb. if deb = ''/tmp/work/coreutils_9.4-3.deb''
                                  then Some [ls_page, broken_page, cat_page] else None),
      detect_so = (\<lambda>p. Some None),
      convert_manpage = (\<lambda>p. if p = Path broken_page then None
                                else Some ''<h1>NAME</h1><p>page</p>''),
      transform_pipeline = (\<lambda>release raw meta. Some (''<!--META:{}-->'', ''page'')),
      strip_tags = (\<lambda>body. []),
      read_file = (\<lambda>p. if p = Path cat_page then None else Some ''gzip bytes''),
      storage_fails = (\<lambda>p. None),
      index_fails = (\<lambda>doc. False) \<rparr>"

section \<open>internal/transform/toc.go: the table of contents\<close>

text \<open>The double quote, which the patterns and the emitted markup contain.\<close>

definition dq :: string where
  "dq = [CHR 0x22]"

text \<open>The slice \<open>s[a:b]\<close>.\<close>

definition slice :: "string \<Rightarrow> nat \<Rightarrow> nat \<Rightarrow> string" where
  "slice s a b = take (b - a) (drop a s)"

text \<open>The class \<open>\s\<close> of the regular expressions: tab, line feed, form feed, carriage return, space.\<close>

definition isSpaceRE :: "char \<Rightarrow> bool" where
  "isSpaceRE c = (c \<in> set [CHR 0x09, CHR 0x0A, CHR 0x0C, CHR 0x0D, CHR '' ''])"

text \<open>
  One match of \<open>tocHeadingPattern\<close>, \<open>(?s)<(h2)(\s[^>]*)?>(.+?)</h2>\<close>, as
  \<open>FindAllSubmatchIndex\<close> reports it: the bounds of the whole match, of the attributes group
  when it took part in the match, and of the inner group. The tag group is always the two
  bytes after the opening bracket.
\<close>

record h2_loc =
  fullStart :: nat
  fullEnd :: nat
  attrsLoc :: "(nat \<times> nat) option"
  innerStart :: nat
  innerEnd :: nat

text \<open>
  \<open>close_h2\<close> matches \<open>(.+?)</h2>\<close> at the start of a string and gives the length of the
  inner group: at least one byte, then up to the first closing tag. \<open>match_h2_here\<close> matches the
  whole pattern at the start of a string and gives the length of the attributes group, when
  there is one, and of the inner group.
\<close>

definition close_h2 :: "string \<Rightarrow> nat option" where
  "close_h2 after =
     (case after of
        [] \<Rightarrow> None
      | x # after' \<Rightarrow> map_option Suc (Index after' ''</h2>''))"

definition match_h2_here :: "string \<Rightarrow> (nat option \<times> nat) option" where
  "match_h2_here s =
     (if \<not> prefix ''<h2'' s then None
      else (case drop 3 s of
              [] \<Rightarrow> None
            | c # s2 \<Rightarrow>
                if isSpaceRE c then
                  (case Index (c # s2) ''>'' of
                     None \<Rightarrow> None
                   | Some k \<Rightarrow> map_option (\<lambda>il. (Some k, il)) (close_h2 (drop (k + 1) (c # s2))))
                else if c = CHR ''>'' then map_option (\<lambda>il. (None, il)) (close_h2 s2)
                else None))"

text \<open>
  The successive non-overlapping matches, leftmost first: \<open>skip\<close> counts the bytes of the
  last match still to pass, \<open>pos\<close> is the offset of the head of the remaining input.
\<close>

fun find_h2 :: "nat \<Rightarrow> nat \<Rightarrow> string \<Rightarrow> h2_loc list" where
  "find_h2 skip pos [] = []"
| "find_h2 skip pos (c # s) =
     (if 0 < skip then find_h2 (skip - 1) (Suc pos) s
      else (case match_h2_here (c # s) of
              None \<Rightarrow> find_h2 0 (Suc pos) s
            | Some (al, il) \<Rightarrow>
                (let a = (case al of None \<Rightarrow> 0 | Some k \<Rightarrow> k);
                     loc = \<lparr> fullStart = pos, fullEnd = pos + 3 + a + 1 + il + 5,
                             attrsLoc = (case al of None \<Rightarrow> None
                                         | Some k \<Rightarrow> Some (pos + 3, pos + 3 + k)),
                             innerStart = pos + 3 + a + 1, innerEnd = pos + 3 + a + 1 + il \<rparr>
                 in loc # find_h2 (3 + a + 1 + il + 5 - 1) (Suc pos) s)))"

definition tocHeadingPattern_FindAll :: "string \<Rightarrow> h2_loc list" where
  "tocHeadingPattern_FindAll html = find_h2 0 0 html"

text \<open>\<open>manpageStripTags\<close> is \<open>(?is)<[^>]+>\<close>; every match is replaced.\<close>

fun strip_tags_from :: "nat \<Rightarrow> string \<Rightarrow> string \<Rightarrow> string" where
  "strip_tags_from skip repl [] = []"
| "strip_tags_from skip repl (c # s) =
     (if 0 < skip then strip_tags_from (skip - 1) repl s
      else if c = CHR ''<'' then
        (case Index s ''>'' of
           None \<Rightarrow> c # strip_tags_from 0 repl s
         | Some k \<Rightarrow>
             if k = 0 then c # strip_tags_from 0 repl s
             else repl @ strip_tags_from (k + 1) repl s)
      else c # strip_tags_from 0 repl s)"

definition manpageStripTags_ReplaceAll :: "string \<Rightarrow> string \<Rightarrow> string" where
  "manpageStripTags_ReplaceAll s repl = strip_tags_from 0 repl s"

definition collapseWhitespace :: "string \<Rightarrow> string" where
  "collapseWhitespace s = strings_Join (Fields s) '' ''"

text \<open>
  \<open>html.UnescapeString\<close> returns a string without an ampersand as it is; what it does with the
  entities of the others is the parameter \<open>entities\<close>. \<open>html.EscapeString\<close> escapes five
  characters.
\<close>

definition UnescapeString :: "(string \<Rightarrow> string) \<Rightarrow> string \<Rightarrow> string" where
  "UnescapeString entities s = (if CHR ''&'' \<in> set s then entities s else s)"

definition EscapeString :: "string \<Rightarrow> string" where
  "EscapeString s =
     concat (map (\<lambda>c. if c = CHR ''&'' then ''&amp;''
                      else if c = CHR 0x27 then ''&#39;''
                      else if c = CHR ''<'' then ''&lt;''
                      else if c = CHR ''>'' then ''&gt;''
                      else if c = CHR 0x22 then ''&#34;''
                      else [c]) s)"

text \<open>
  \<open>slugify\<close> lowers the text, replaces every maximal run of bytes outside \<open>[a-z0-9]\<close> by one
  dash (\<open>nonAlphanumeric\<close> is \<open>[^a-z0-9]+\<close>) and trims the dashes at both ends. The model is
  that of ASCII text.
\<close>

fun dash_runs :: "bool \<Rightarrow> string \<Rightarrow> string" where
  "dash_runs in_run [] = []"
| "dash_runs in_run (c # s) =
     (if isLower c \<or> isDigit c then c # dash_runs False s
      else if in_run then dash_runs True s
      else CHR ''-'' # dash_runs True s)"

definition Trim :: "string \<Rightarrow> string \<Rightarrow> string" where
  "Trim s cutset =
     rev (dropWhile (\<lambda>c. c \<in> set cutset) (rev (dropWhile (\<lambda>c. c \<in> set cutset) s)))"

definition slugify :: "string \<Rightarrow> string" where
  "slugify text = Trim (dash_runs False (ToLower text)) ''-''"

text \<open>
  \<open>permalinkHrefPattern\<close> is \<open><a class="permalink" href="#[^"]*"\<close> and \<open>headingIDAttr\<close> is
  \<open>\s*id="[^"]*"\<close>; every match of the first is replaced by \<open>repl\<close>, every match of the second
  is removed.
\<close>

definition permalink_open :: string where
  "permalink_open = ''<a class='' @ dq @ ''permalink'' @ dq @ '' href='' @ dq @ ''#''"

fun replace_permalinks :: "nat \<Rightarrow> string \<Rightarrow> string \<Rightarrow> string" where
  "replace_permalinks skip repl [] = []"
| "replace_permalinks skip repl (c # s) =
     (if 0 < skip then replace_permalinks (skip - 1) repl s
      else if prefix permalink_open (c # s) then
        (case Index (drop (length permalink_open) (c # s)) dq of
           None \<Rightarrow> c # replace_permalinks 0 repl s
         | Some k \<Rightarrow> repl @ replace_permalinks (length permalink_open + k) repl s)
      else c # replace_permalinks 0 repl s)"

fun remove_id_attrs :: "nat \<Rightarrow> string \<Rightarrow> string" where
  "remove_id_attrs skip [] = []"
| "remove_id_attrs skip (c # s) =
     (if 0 < skip then remove_id_attrs (skip - 1) s
      else (let ws = length (takeWhile isSpaceRE (c # s));
                rest = drop ws (c # s)
            in if prefix (''id='' @ dq) rest then
                 (case Index (drop 4 rest) dq of
                    None \<Rightarrow> c # remove_id_attrs 0 s
                  | Some k \<Rightarrow> remove_id_attrs (ws + 4 + k) s)
               else c # remove_id_attrs 0 s))"

text \<open>
  The loop of \<open>bGenerateTOC\<close> over the matches: the state is the set \<open>seen\<close> of slugs, the
  entries of the table so far, the body written so far and \<open>lastEnd\<close>
  (the fields carry the prefix \<open>toc_\<close>). \<open>toc_heading\<close> is one
  iteration, for the match numbered \<open>i\<close>.
\<close>

record toc_state =
  toc_seen :: "string list"
  toc_entries :: "(string \<times> string) list"
  toc_body :: string
  toc_lastEnd :: nat

definition toc_heading ::
  "(string \<Rightarrow> string) \<Rightarrow> string \<Rightarrow> toc_state \<Rightarrow> nat \<times> h2_loc \<Rightarrow> toc_state" where
  "toc_heading entities html st m =
     (case m of (i, loc) \<Rightarrow>
        (let tag = slice html (fullStart loc + 1) (fullStart loc + 3);
             attrs = (case attrsLoc loc of None \<Rightarrow> [] | Some (a, b) \<Rightarrow> slice html a b);
             inner = slice html (innerStart loc) (innerEnd loc);
             text = collapseWhitespace (manpageStripTags_ReplaceAll inner [])
         in if text = []
            then st\<lparr> toc_body := toc_body st @ slice html (toc_lastEnd st) (fullEnd loc),
                     toc_lastEnd := fullEnd loc \<rparr>
            else (let slug0 = slugify (UnescapeString entities text);
                      slug1 = (if slug0 = [] then ''heading-'' @ Itoa i else slug0);
                      slug = (if slug1 \<in> set (toc_seen st) then slug1 @ ''-'' @ Itoa i else slug1);
                      rewrittenInner = replace_permalinks 0 (permalink_open @ slug @ dq) inner;
                      cleanAttrs = remove_id_attrs 0 attrs
                  in st\<lparr> toc_seen := slug # toc_seen st,
                          toc_entries := toc_entries st
                             @ [(slug, EscapeString (UnescapeString entities text))],
                          toc_body := toc_body st @ slice html (toc_lastEnd st) (fullStart loc)
                             @ ''<'' @ tag @ '' id='' @ dq @ slug @ dq @ cleanAttrs @ ''>''
                             @ rewrittenInner @ ''</'' @ tag @ ''>'',
                          toc_lastEnd := fullEnd loc \<rparr>)))"

text \<open>The line of the table of contents for one entry (its id, then its text).\<close>

definition toc_item :: "string \<times> string \<Rightarrow> string" where
  "toc_item e =
     ''<li class='' @ dq @ ''p-table-of-contents__item'' @ dq @ ''>''
     @ ''<a class='' @ dq @ ''p-table-of-contents__link'' @ dq @ '' href='' @ dq @ ''#''
     @ fst e @ dq @ ''>'' @ snd e @ ''</a></li>'' @ [CHR 0x0A]"

definition toc_run :: "(string \<Rightarrow> string) \<Rightarrow> string \<Rightarrow> toc_state" where
  "toc_run entities html =
     foldl (toc_heading entities html) \<lparr> toc_seen = [], toc_entries = [], toc_body = [], toc_lastEnd = 0 \<rparr>
       (zip [0..<length (tocHeadingPattern_FindAll html)] (tocHeadingPattern_FindAll html))"

text \<open>\<open>bGenerateTOC\<close> returns the rewritten body and the table of contents.\<close>

definition bGenerateTOC :: "(string \<Rightarrow> string) \<Rightarrow> string \<Rightarrow> string \<times> string" where
  "bGenerateTOC entities html =
     (if length (tocHeadingPattern_FindAll html) = 0 then (html, [])
      else (let st = toc_run entities html
            in (toc_body st @ drop (toc_lastEnd st) html, concat (map toc_item (toc_entries st)))))"

text \<open>
  The slugs assigned to the headings, in the order of the headings, and the ids that the
  headings carry in the rewritten body are the same list: every heading that gets an entry
  is written with its slug as id.
\<close>

definition assigned_slugs :: "(string \<Rightarrow> string) \<Rightarrow> string \<Rightarrow> string list" where
  "assigned_slugs entities html = map fst (toc_entries (toc_run entities html))"

text \<open>A page with three headings: NOTES, NOTES 2 and NOTES again.\<close>

definition notes_page :: string where
  "notes_page = ''<h2>NOTES</h2><h2>NOTES 2</h2><h2>NOTES</h2>''"

subsection \<open>Cleaned paths\<close>

text \<open>
  Notions used to reason about \<open>Clean\<close>: a real element is a non-empty element other
  than \<open>.\<close> without a slash; a stack of kept elements (last one first) is well formed
  when \<open>..\<close> occurs only below other \<open>..\<close> elements of a relative path; a string is
  canonical when its elements, read by \<open>Split\<close>, form such a stack.
\<close>

definition real_elem :: "string \<Rightarrow> bool" where
  "real_elem e = (e \<noteq> [] \<and> e \<noteq> ''.'' \<and> CHR ''/'' \<notin> set e)"

fun stack_ok :: "bool \<Rightarrow> string list \<Rightarrow> bool" where
  "stack_ok rooted [] = True"
| "stack_ok rooted (e # out) =
     (real_elem e \<and> (e = ''..'' \<longrightarrow> \<not> rooted \<and> (\<forall>x\<in>set out. x = ''..'')) \<and>
      stack_ok rooted out)"

definition canon :: "string \<Rightarrow> bool" where
  "canon s = (s \<noteq> [] \<and>
     (case Split s (CHR ''/'') of
        [] \<Rightarrow> False
      | e # es \<Rightarrow> if e = [] then es \<noteq> [] \<and> stack_ok True (rev es)
                  else stack_ok False (rev (e # es))))"

section \<open>Verified properties\<close>

subsection \<open>Path resolver\<close>

text \<open>
  Claim C7. \<open>parse_manpage_path\<close> on the two paths of the specification: the English
  page \<open>ls.1.gz\<close> of release jammy has section 1 and no language; the page
  \<open>apt-get.8.gz\<close> under \<open>zh_CN\<close> of release noble has section 8 and language
  \<open>zh_CN\<close>; the HTML and gzip paths are the ones the specification lists.
\<close>

theorem ParseManpagePath_scenarios:
  "ParseManpagePath ''jammy'' ''./usr/share/man/man1/ls.1.gz'' =
     Inr \<lparr> HTMLPath = ''manpages/jammy/man1/ls.1.html'',
           GzipPath = ''manpages.gz/jammy/man1/ls.1.gz'',
           Section = 1, Language = [] \<rparr>
   \<and> ParseManpagePath ''noble'' ''./usr/share/man/zh_CN/man8/apt-get.8.gz'' =
     Inr \<lparr> HTMLPath = ''manpages/noble/zh_CN/man8/apt-get.8.html'',
           GzipPath = ''manpages.gz/noble/zh_CN/man8/apt-get.8.gz'',
           Section = 8, Language = ''zh_CN'' \<rparr>"
  by code_simp

text \<open>The two scenarios read through the fields of the result.\<close>

theorem ParseManpagePath_scenarios_witness:
  "map_sum id (\<lambda>r. (Section r, Language r))
     (ParseManpagePath ''jammy'' ''./usr/share/man/man1/ls.1.gz'') = Inr (1, [])
   \<and> map_sum id (\<lambda>r. (Section r, Language r))
     (ParseManpagePath ''noble'' ''./usr/share/man/zh_CN/man8/apt-get.8.gz'') = Inr (8, ''zh_CN'')"
  using ParseManpagePath_scenarios by simp

subsection \<open>Splitting and joining\<close>

lemma Split_nonempty: "Split s c \<noteq> []"
  by (induction s) (auto split: list.splits)

lemma Split_no_sep: "x \<in> set (Split s c) \<Longrightarrow> c \<notin> set x"
proof (induction s arbitrary: x)
  case Nil
  then show ?case by simp
next
  case (Cons a s)
  then show ?case
    by (cases "Split s c") (auto split: if_splits)
qed

lemma Join_Split: "strings_Join (Split s c) [c] = s"
proof (induction s)
  case Nil
  then show ?case by simp
next
  case (Cons a s)
  show ?case
  proof (cases "Split s c")
    case Nil
    then show ?thesis using Split_nonempty by blast
  next
    case (Cons x xs)
    with Cons.IH show ?thesis
      by (cases xs) auto
  qed
qed

lemma Split_Join:
  "xs \<noteq> [] \<Longrightarrow> \<forall>x\<in>set xs. c \<notin> set x \<Longrightarrow> Split (strings_Join xs [c]) c = xs"
proof (induction xs "[c]" rule: strings_Join.induct)
  case 1
  then show ?case by simp
next
  case (2 x)
  then show ?case by (induction x) auto
next
  case (3 x y xs)
  have ih: "Split (strings_Join (y # xs) [c]) c = y # xs" using 3 by simp
  have "c \<notin> set x" using 3 by simp
  then have "Split (x @ c # strings_Join (y # xs) [c]) c = x # y # xs"
    using ih by (induction x) auto
  then show ?case by simp
qed

lemma Split_append_nosep:
  "c \<notin> set x \<Longrightarrow> Split (b @ x) c = butlast (Split b c) @ [last (Split b c) @ x]"
proof (induction b)
  case Nil
  then show ?case by (induction x) auto
next
  case (Cons a b)
  then show ?case
    using Split_nonempty[of b c]
    by (cases "Split b c") (auto split: list.splits)
qed

lemma Split_prefix:
  "prefix b q \<Longrightarrow>
   \<exists>k p. k < length (Split q c) \<and> Split b c = take k (Split q c) @ [p] \<and> prefix p (Split q c ! k)"
proof (induction q arbitrary: b)
  case Nil
  then show ?case by simp
next
  case (Cons a q)
  show ?case
  proof (cases b)
    case Nil
    then show ?thesis
      by (intro exI[of _ 0] exI[of _ "[]"]) (auto split: list.splits)
  next
    case (Cons a' b')
    with Cons.prems have a: "a' = a" and pre: "prefix b' q" by auto
    from Cons.IH[OF pre] obtain k p where kp: "k < length (Split q c)"
      "Split b' c = take k (Split q c) @ [p]" "prefix p (Split q c ! k)" by blast
    show ?thesis
    proof (cases "a = c")
      case True
      then show ?thesis using kp Cons a
        by (intro exI[of _ "Suc k"] exI[of _ p]) auto
    next
      case False
      obtain x xs where sq: "Split q c = x # xs" using Split_nonempty[of q c] by (cases "Split q c") auto
      show ?thesis
      proof (cases k)
        case 0
        then show ?thesis using kp Cons a False sq
          by (intro exI[of _ 0] exI[of _ "a # p"]) auto
      next
        case (Suc k')
        then show ?thesis using kp Cons a False sq
          by (intro exI[of _ k] exI[of _ p]) auto
      qed
    qed
  qed
qed

subsection \<open>\<open>Clean\<close> returns canonical paths and leaves them unchanged\<close>

lemma stack_ok_append: "stack_ok rooted (xs @ ys) \<Longrightarrow> stack_ok rooted ys"
  by (induction xs) auto

lemma stack_ok_real: "stack_ok rooted out \<Longrightarrow> x \<in> set out \<Longrightarrow> real_elem x"
  by (induction out) auto

lemma stack_ok_all_dotdot:
  "stack_ok rooted out \<Longrightarrow> out = [] \<or> hd out = ''..'' \<Longrightarrow> \<forall>x\<in>set out. x = ''..''"
  by (cases out) auto

lemma clean_elem_ok:
  "stack_ok rooted out \<Longrightarrow> CHR ''/'' \<notin> set e \<Longrightarrow> stack_ok rooted (clean_elem rooted out e)"
proof (cases "e = [] \<or> e = ''.''")
  case True
  assume "stack_ok rooted out"
  then show ?thesis using True by (auto simp: clean_elem_def)
next
  case False
  assume ok: "stack_ok rooted out" and ns: "CHR ''/'' \<notin> set e"
  show ?thesis
  proof (cases "e = ''..''")
    case True
    show ?thesis
    proof (cases "out \<noteq> [] \<and> hd out \<noteq> ''..''")
      case True
      then obtain x xs where "out = x # xs" by (cases out) auto
      then show ?thesis using ok \<open>e = ''..''\<close> True by (simp add: clean_elem_def)
    next
      case nb: False
      then have "\<forall>x\<in>set out. x = ''..''" using stack_ok_all_dotdot[OF ok] by blast
      then show ?thesis using ok \<open>e = ''..''\<close> nb
        by (auto simp: clean_elem_def real_elem_def)
    qed
  next
    case ne: False
    then show ?thesis using ok False ns by (simp add: clean_elem_def real_elem_def)
  qed
qed

lemma foldl_clean_ok:
  "stack_ok rooted out \<Longrightarrow> \<forall>e\<in>set es. CHR ''/'' \<notin> set e \<Longrightarrow>
   stack_ok rooted (foldl (clean_elem rooted) out es)"
  by (induction es arbitrary: out) (auto simp: clean_elem_ok)

lemma foldl_clean_id:
  "stack_ok rooted (rev es @ out) \<Longrightarrow> foldl (clean_elem rooted) out es = rev es @ out"
proof (induction es arbitrary: out)
  case Nil
  then show ?case by simp
next
  case (Cons e es)
  from Cons.prems have ok': "stack_ok rooted (rev es @ (e # out))" by simp
  then have eo: "stack_ok rooted (e # out)" by (rule stack_ok_append)
  have "clean_elem rooted out e = e # out"
  proof (cases "e = ''..''")
    case True
    with eo have "\<not> rooted" "\<forall>x\<in>set out. x = ''..''" by auto
    then have "\<not> (out \<noteq> [] \<and> hd out \<noteq> ''..'')" by (cases out) auto
    then show ?thesis using True \<open>\<not> rooted\<close> by (auto simp: clean_elem_def)
  next
    case False
    then show ?thesis using eo by (simp add: clean_elem_def real_elem_def)
  qed
  then show ?case using Cons.IH[OF ok'] by simp
qed

lemma hd_Split: "s \<noteq> [] \<Longrightarrow> (hd (Split s c) = []) = (hd s = c)"
  by (cases s) (auto split: list.splits)

lemma Clean_canon: "canon s \<Longrightarrow> Clean s = s"
proof -
  assume c: "canon s"
  then have ne: "s \<noteq> []" by (simp add: canon_def)
  obtain e es where sp: "Split s (CHR ''/'') = e # es"
    using Split_nonempty[of s "CHR ''/''"] by (cases "Split s (CHR ''/'')") auto
  have js: "strings_Join (e # es) ''/'' = s" using Join_Split[of s "CHR ''/''"] sp by simp
  show ?thesis
  proof (cases "e = []")
    case True
    then have rooted: "hd s = CHR ''/''" using hd_Split[OF ne, of "CHR ''/''"] sp by simp
    from c sp True have es: "es \<noteq> []" "stack_ok True (rev es)" by (auto simp: canon_def)
    have f: "foldl (clean_elem True) [] es = rev es"
      using foldl_clean_id[of True es "[]"] es by simp
    have "foldl (clean_elem True) [] (e # es) = rev es"
      using f True by (simp add: clean_elem_def)
    moreover have "s = CHR ''/'' # strings_Join es ''/''"
      using js True es by (cases es) auto
    ultimately show ?thesis using ne rooted sp
      by (simp add: Clean_def render_path_def)
  next
    case False
    then have nrooted: "hd s \<noteq> CHR ''/''" using hd_Split[OF ne, of "CHR ''/''"] sp by simp
    from c sp False have ok: "stack_ok False (rev (e # es))" by (auto simp: canon_def)
    have "foldl (clean_elem False) [] (e # es) = rev (e # es)"
      using foldl_clean_id[of False "e # es" "[]"] ok by simp
    then show ?thesis using ne nrooted sp js
      by (simp add: Clean_def render_path_def)
  qed
qed

lemma Clean_shape: "Clean t = ''/'' \<or> Clean t = ''.'' \<or> canon (Clean t)"
proof (cases "t = []")
  case True
  then show ?thesis by (simp add: Clean_def)
next
  case False
  define rooted where "rooted = (hd t = CHR ''/'')"
  define out where "out = foldl (clean_elem rooted) [] (Split t (CHR ''/''))"
  have ok: "stack_ok rooted out"
    unfolding out_def using foldl_clean_ok[of rooted "[]"] Split_no_sep by simp
  have cl: "Clean t = render_path rooted (rev out)"
    using False by (simp add: Clean_def rooted_def out_def)
  show ?thesis
  proof (cases "out = []")
    case True
    then show ?thesis using cl by (simp add: render_path_def)
  next
    case ne: False
    have ns: "\<forall>x\<in>set (rev out). CHR ''/'' \<notin> set x"
      using stack_ok_real[OF ok] by (auto simp: real_elem_def)
    have sj: "Split (strings_Join (rev out) ''/'') (CHR ''/'') = rev out"
      using Split_Join[of "rev out" "CHR ''/''"] ne ns by simp
    obtain e es where ro: "rev out = e # es" using ne by (cases "rev out") auto
    have e_ne: "e \<noteq> []" using stack_ok_real[OF ok, of e] ro
      by (metis list.set_intros(1) real_elem_def set_rev)
    show ?thesis
    proof (cases rooted)
      case True
      then have "Clean t = CHR ''/'' # strings_Join (rev out) ''/''" using cl by (simp add: render_path_def)
      then have "canon (Clean t)" using sj ne ok True by (simp add: canon_def)
      then show ?thesis by simp
    next
      case False
      then have c: "Clean t = strings_Join (rev out) ''/''" using cl ne by (simp add: render_path_def)
      have "strings_Join (rev out) ''/'' \<noteq> []" using ro e_ne by (cases es) auto
      then have "canon (Clean t)" using sj ok False c ro e_ne
        by (simp add: canon_def)
      then show ?thesis by simp
    qed
  qed
qed

lemma real_html: "CHR ''/'' \<notin> set p \<Longrightarrow> real_elem (p @ ''.html'') \<and> p @ ''.html'' \<noteq> ''..''"
proof -
  assume "CHR ''/'' \<notin> set p"
  moreover have "length (p @ ''.html'') \<ge> 5" by simp
  then have "p @ ''.html'' \<noteq> []" "p @ ''.html'' \<noteq> ''.''" "p @ ''.html'' \<noteq> ''..''"
    by (auto simp del: length_append)
  ultimately show ?thesis by (simp add: real_elem_def)
qed

lemma prefix_html_canon:
  assumes q: "q = ''/'' \<or> q = ''.'' \<or> canon q" and pre: "prefix b q"
  shows "canon (b @ ''.html'')"
proof -
  let ?c = "CHR ''/''"
  from Split_prefix[OF pre, of ?c] obtain k p where
    k: "k < length (Split q ?c)" and sb: "Split b ?c = take k (Split q ?c) @ [p]"
    and pp: "prefix p (Split q ?c ! k)" by blast
  have "Split q ?c ! k \<in> set (Split q ?c)" using k by simp
  then have "?c \<notin> set (Split q ?c ! k)" by (rule Split_no_sep)
  then have pns: "?c \<notin> set p" using pp by (auto simp: prefix_def)
  have sx: "Split (b @ ''.html'') ?c = take k (Split q ?c) @ [p @ ''.html'']"
    using Split_append_nosep[of ?c "''.html''" b] sb by simp
  note rh = real_html[OF pns]
  show ?thesis
  proof (cases k)
    case 0
    then show ?thesis using sx rh by (simp add: canon_def)
  next
    case (Suc k')
    obtain e es where sq: "Split q ?c = e # es"
      using Split_nonempty[of q ?c] by (cases "Split q ?c") auto
    have sx': "Split (b @ ''.html'') ?c = e # (take k' es @ [p @ ''.html''])"
      using sx sq Suc by simp
    have k': "k' < length es" using k sq Suc by simp
    from q consider (root) "q = ''/''" | (dot) "q = ''.''" | (can) "canon q" by blast
    then show ?thesis
    proof cases
      case root
      then have "e = []" "es = [[]]" using sq by auto
      then have "k' = 0" using k' by simp
      then show ?thesis using sx' \<open>e = []\<close> rh by (simp add: canon_def)
    next
      case dot
      then have "es = []" using sq by auto
      then show ?thesis using k' by simp
    next
      case can
      show ?thesis
      proof (cases "e = []")
        case True
        with can sq have ok: "stack_ok True (rev es)" by (simp add: canon_def)
        have "rev es = rev (drop k' es) @ rev (take k' es)"
          by (metis append_take_drop_id rev_append)
        then have "stack_ok True (rev (take k' es))" using ok stack_ok_append by metis
        then show ?thesis using sx' True rh by (simp add: canon_def)
      next
        case False
        with can sq have ok: "stack_ok False (rev (e # es))" by (simp add: canon_def)
        have "rev (e # es) = rev (drop (Suc k') (e # es)) @ rev (take (Suc k') (e # es))"
          by (metis append_take_drop_id rev_append)
        then have "stack_ok False (rev (take (Suc k') (e # es)))" using ok stack_ok_append by metis
        then show ?thesis using sx' False rh by (simp add: canon_def)
      qed
    qed
  qed
qed

lemma normalizeHTMLExt_prefix: "\<exists>b. prefix b p \<and> normalizeHTMLExt p = b @ ''.html''"
proof -
  define p1 where "p1 = (if HasSuffix p ''.gz'' then take (length p - length ''.gz'') p else p)"
  have p1: "prefix p1 p" by (simp add: p1_def take_is_prefix)
  have n: "normalizeHTMLExt p = (if \<not> HasSuffix p1 ''.html'' then p1 @ ''.html'' else p1)"
    by (simp add: normalizeHTMLExt_def CutSuffix_def p1_def Let_def)
  show ?thesis
  proof (cases "HasSuffix p1 ''.html''")
    case True
    then obtain b where b: "p1 = b @ ''.html''" by (auto simp: HasSuffix_def suffix_def)
    then have "prefix b p" using p1 by (metis append_prefixD)
    then show ?thesis using n True b by auto
  next
    case False
    then show ?thesis using n p1 by auto
  qed
qed

lemma normalizeHTMLExt_html: "normalizeHTMLExt (b @ ''.html'') = b @ ''.html''"
proof -
  have "\<not> suffix ''.gz'' (b @ ''.html'')"
    by (simp add: suffix_def)
  moreover have "suffix ''.html'' (b @ ''.html'')" by (rule suffix_appendI) simp
  ultimately show ?thesis
    by (simp add: normalizeHTMLExt_def CutSuffix_def HasSuffix_def Let_def)
qed

text \<open>
  Claim C10. For every input string, \<open>ConvertSymlinkTarget\<close> and \<open>ConvertSoTarget\<close>
  return a path that ends with \<open>.html\<close> and does not end with \<open>.gz\<close>, and
  \<open>ConvertSymlinkTarget\<close> is idempotent: applied to its own output it returns that
  output unchanged.
\<close>

theorem convert_targets_html_idempotent:
  "HasSuffix (ConvertSymlinkTarget t) ''.html'' \<and>
   \<not> HasSuffix (ConvertSymlinkTarget t) ''.gz'' \<and>
   HasSuffix (ConvertSoTarget t) ''.html'' \<and>
   \<not> HasSuffix (ConvertSoTarget t) ''.gz'' \<and>
   ConvertSymlinkTarget (ConvertSymlinkTarget t) = ConvertSymlinkTarget t"
proof -
  have html: "HasSuffix (normalizeHTMLExt p) ''.html'' \<and> \<not> HasSuffix (normalizeHTMLExt p) ''.gz''" for p
  proof -
    obtain b where b: "normalizeHTMLExt p = b @ ''.html''"
      using normalizeHTMLExt_prefix[of p] by blast
    have "\<not> suffix ''.gz'' (b @ ''.html'')" by (simp add: suffix_def)
    moreover have "suffix ''.html'' (b @ ''.html'')" by (rule suffix_appendI) simp
    ultimately show ?thesis using b by (simp add: HasSuffix_def)
  qed
  have idem: "ConvertSymlinkTarget (ConvertSymlinkTarget t) = ConvertSymlinkTarget t"
  proof -
    obtain b where b: "prefix b (Clean t)" "normalizeHTMLExt (Clean t) = b @ ''.html''"
      using normalizeHTMLExt_prefix[of "Clean t"] by blast
    have "canon (b @ ''.html'')" using prefix_html_canon[OF Clean_shape b(1)] .
    then have "Clean (b @ ''.html'') = b @ ''.html''" by (rule Clean_canon)
    then show ?thesis using b(2) normalizeHTMLExt_html[of b]
      by (simp add: ConvertSymlinkTarget_def ToSlash_def)
  qed
  show ?thesis using html idem
    by (simp add: ConvertSymlinkTarget_def ConvertSoTarget_def Let_def)
qed

subsection \<open>Query sanitizer\<close>

lemma fields_from_trailing:
  "\<forall>c\<in>set ws. isSpace c \<Longrightarrow> fields_from cur (s @ ws) = fields_from cur s"
proof (induction s arbitrary: cur)
  case Nil
  then show ?case by (induction ws arbitrary: cur) auto
next
  case (Cons a s)
  then show ?case by simp
qed

lemma Fields_leading: "Fields (dropWhile isSpace s) = Fields s"
  by (induction s) (auto simp: Fields_def)

lemma trailing_split: "s = rev (dropWhile P (rev s)) @ rev (takeWhile P (rev s))"
  by (metis rev_append rev_rev_ident takeWhile_dropWhile_id)

lemma Fields_trailing: "Fields (rev (dropWhile isSpace (rev s))) = Fields s"
proof -
  have "\<forall>c\<in>set (rev (takeWhile isSpace (rev s))). isSpace c"
    by (auto dest: set_takeWhileD)
  then have "fields_from [] (rev (dropWhile isSpace (rev s)) @ rev (takeWhile isSpace (rev s)))
      = fields_from [] (rev (dropWhile isSpace (rev s)))"
    by (rule fields_from_trailing)
  then show ?thesis using trailing_split[of s isSpace] by (simp add: Fields_def)
qed

lemma Fields_TrimSpace: "Fields (TrimSpace s) = Fields s"
  by (simp add: TrimSpace_def Fields_trailing Fields_leading)

lemma isSpace_query_rune: "isSpace c \<Longrightarrow> isSpace (query_rune c)"
  by (auto simp: query_rune_def isSpace_def)

lemma Fields_map_leading:
  "Fields (map query_rune (dropWhile isSpace s)) = Fields (map query_rune s)"
  by (induction s) (auto simp: Fields_def isSpace_query_rune)

lemma Fields_map_trailing:
  "Fields (map query_rune (rev (dropWhile isSpace (rev s)))) = Fields (map query_rune s)"
proof -
  let ?a = "rev (dropWhile isSpace (rev s))" and ?b = "rev (takeWhile isSpace (rev s))"
  have "\<forall>c\<in>set (map query_rune ?b). isSpace c"
    by (auto dest: set_takeWhileD simp: isSpace_query_rune)
  then have "fields_from [] (map query_rune ?a @ map query_rune ?b) = fields_from [] (map query_rune ?a)"
    by (rule fields_from_trailing)
  moreover have "map query_rune s = map query_rune ?a @ map query_rune ?b"
    using trailing_split[of s isSpace] by (metis map_append)
  ultimately show ?thesis by (simp add: Fields_def)
qed

lemma Fields_map_TrimSpace: "Fields (map query_rune (TrimSpace s)) = Fields (map query_rune s)"
  by (simp add: TrimSpace_def Fields_map_trailing Fields_map_leading)

lemma query_terms_filtered:
  "filter (\<lambda>t. t \<noteq> []) (map query_term ts) = map prefix_phrase (filter (\<lambda>t. \<not> reserved_term t) ts)"
  by (induction ts) (auto simp: query_term_def reserved_term_def prefix_phrase_def Let_def)

text \<open>
  Claim C5, amended. For every query string the sanitizer keeps the characters of
  \<open>[A-Za-z0-9 _.-]\<close> and replaces every other one by a space, splits the result into
  tokens, drops the tokens that are AND, OR or NOT in any case, wraps each remaining
  token as \<open>"token"*\<close> and joins them with single spaces. The case of the kept
  letters is not changed.
\<close>

theorem sanitizeQuery_keeps_case:
  "sanitizeQuery q =
     strings_Join
       (map prefix_phrase (filter (\<lambda>t. \<not> reserved_term t) (Fields (map query_rune q))))
       '' ''"
proof -
  let ?q1 = "TrimSpace q"
  let ?q2 = "TrimSpace (map query_rune ?q1)"
  have f: "Fields ?q2 = Fields (map query_rune q)"
    by (simp add: Fields_TrimSpace Fields_map_TrimSpace)
  show ?thesis
  proof (cases "?q1 = []")
    case True
    then have "Fields (map query_rune q) = []"
      using Fields_map_TrimSpace[of q] by (simp add: Fields_def)
    then show ?thesis using True by (simp add: sanitizeQuery_def)
  next
    case q1: False
    show ?thesis
    proof (cases "?q2 = []")
      case True
      then have "Fields (map query_rune q) = []" using f by (simp add: Fields_def)
      then show ?thesis using True q1 by (simp add: sanitizeQuery_def Let_def)
    next
      case False
      then show ?thesis using q1 f
        by (simp add: sanitizeQuery_def Let_def query_terms_filtered)
    qed
  qed
qed

text \<open>
  The claim as stated fails: the query \<open>LS\<close> is returned as \<open>"LS"*\<close>, where
  lowercasing would give \<open>"ls"*\<close>.
\<close>

theorem sanitizeQuery_not_lowercased:
  "sanitizeQuery ''LS'' = [CHR 0x22] @ ''LS'' @ [CHR 0x22] @ ''*''
   \<and> spec_sanitizeQuery ''LS'' = [CHR 0x22] @ ''ls'' @ [CHR 0x22] @ ''*''"
  by code_simp

theorem sanitizeQuery_keeps_case_witness:
  "sanitizeQuery ''man  LS;not Xz-utils'' =
     [CHR 0x22] @ ''man'' @ [CHR 0x22] @ ''* '' @ [CHR 0x22] @ ''LS'' @ [CHR 0x22] @ ''* ''
       @ [CHR 0x22] @ ''Xz-utils'' @ [CHR 0x22] @ ''*''"
  unfolding sanitizeQuery_keeps_case by code_simp

subsection \<open>The index parser\<close>

lemma stanzas_nonempty: "stanzas ls \<noteq> []"
  by (induction ls) (auto split: list.splits)

lemma scan_line_nonblank: "l \<noteq> [] \<Longrightarrow> scan_line (flds, res) l = (field_line flds l, res)"
  by (auto simp: scan_line_def field_line_def split: prod.splits)

lemma flush_eq: "flush (flds, res) = (no_fields, res @ complete_package flds)"
  by (simp add: flush_def complete_package_def fields_package_def)

text \<open>
  The loop, started in the middle of a stanza with the fields read so far, appends the
  package of that stanza and then the packages of the stanzas that follow.
\<close>

lemma scan_loop_stanzas:
  "snd (flush (foldl scan_line (flds, res) ls)) =
     res @ complete_package (foldl field_line flds (hd (stanzas ls)))
         @ concat (map stanza_packages (tl (stanzas ls)))"
proof (induction ls arbitrary: flds res)
  case Nil
  then show ?case by (simp add: flush_eq)
next
  case (Cons l ls)
  obtain st sts where s: "stanzas ls = st # sts"
    using stanzas_nonempty[of ls] by (cases "stanzas ls") auto
  show ?case
  proof (cases "l = []")
    case True
    have "scan_line (flds, res) l = (no_fields, res @ complete_package flds)"
      using True by (simp add: scan_line_def flush_eq)
    then show ?thesis using Cons.IH[of no_fields "res @ complete_package flds"] True s
      by (simp add: stanza_packages_def stanza_fields_def)
  next
    case False
    then show ?thesis using Cons.IH[of "field_line flds l" res] s
      by (simp add: scan_line_nonblank)
  qed
qed

text \<open>
  Claim C3, amended. For every input stream on which the scanner reports no error, the
  parser returns, in the order of the stanzas, exactly one candidate for every stanza
  whose Package, Filename and SHA1 are present and not empty, holding the stanza's values
  of the four fields (an empty Version when the stanza has none), and nothing for any
  other stanza. When the scanner reports an error the parser returns that error.
\<close>

theorem parsePackages_stanzas:
  "parsePackages r =
     (case scanner_Err r of
        Some e \<Rightarrow> Inl e
      | None \<Rightarrow> Inr (concat (map stanza_packages (stanzas (scanner_lines r)))))"
proof -
  obtain st sts where s: "stanzas (scanner_lines r) = st # sts"
    using stanzas_nonempty[of "scanner_lines r"] by (cases "stanzas (scanner_lines r)") auto
  have "snd (flush (foldl scan_line (no_fields, []) (scanner_lines r))) =
        concat (map stanza_packages (stanzas (scanner_lines r)))"
    using scan_loop_stanzas[of no_fields "[]" "scanner_lines r"] s
    by (simp add: stanza_packages_def stanza_fields_def)
  then show ?thesis by (simp add: parsePackages_def Let_def split: option.splits)
qed

lemma three_stanza_lines:
  "scanner_lines three_stanza_index =
     [''Package: foo'', ''Version: 2.0-1'', ''Filename: pool/f/foo_2.deb'', ''SHA1: aaa'', [],
      ''Package: nohash'', ''Version: 1.0'', ''Filename: pool/n/nohash_1.deb'', [],
      ''Package: bar'', ''Description: Version: none'', ''Filename: pool/b/bar_1.deb'',
      ''SHA1: bbb'']"
  by code_simp

lemma three_stanza_err: "scanner_Err three_stanza_index = None"
  by (simp add: scanner_Err_def three_stanza_index_def raw_lines_def maxTokenSize_def)

theorem parsePackages_stanzas_witness:
  "parsePackages three_stanza_index =
     Inr [\<lparr> Name = ''foo'', Version = ''2.0-1'', Filename = ''pool/f/foo_2.deb'', SHA1 = ''aaa'' \<rparr>,
          \<lparr> Name = ''bar'', Version = [], Filename = ''pool/b/bar_1.deb'', SHA1 = ''bbb'' \<rparr>]"
  unfolding parsePackages_stanzas three_stanza_err three_stanza_lines
  by (simp add: stanza_packages_def stanza_fields_def complete_package_def fields_package_def
      field_line_def Cut_def no_fields_def)

lemma no_version_lines:
  "scanner_lines no_version_index = [''Package: foo'', ''Filename: pool/f/foo_1.deb'', ''SHA1: aaa'']"
  by code_simp

lemma no_version_err: "scanner_Err no_version_index = None"
  by (simp add: scanner_Err_def no_version_index_def raw_lines_def maxTokenSize_def)

text \<open>
  The claim as stated fails: a stanza without Version is kept, with an empty version,
  where the specification drops it.
\<close>

theorem parsePackages_keeps_stanza_without_version:
  "parsePackages no_version_index =
     Inr [\<lparr> Name = ''foo'', Version = [], Filename = ''pool/f/foo_1.deb'', SHA1 = ''aaa'' \<rparr>]
   \<and> concat (map spec_stanza_packages (stanzas (scanner_lines no_version_index))) = []"
proof -
  have "foldl scan_line (no_fields, []) (scanner_lines no_version_index) =
        (no_fields(''Package'' := ''foo'', ''Filename'' := ''pool/f/foo_1.deb'', ''SHA1'' := ''aaa''), [])"
    unfolding no_version_lines by (simp add: scan_line_def Cut_def)
  then have "parsePackages no_version_index =
     Inr [\<lparr> Name = ''foo'', Version = [], Filename = ''pool/f/foo_1.deb'', SHA1 = ''aaa'' \<rparr>]"
    by (simp add: parsePackages_def no_version_err flush_def no_fields_def)
  moreover have "concat (map spec_stanza_packages (stanzas (scanner_lines no_version_index))) = []"
    unfolding no_version_lines
    by (simp add: spec_stanza_packages_def stanza_fields_def field_line_def Cut_def no_fields_def)
  ultimately show ?thesis by simp
qed

subsection \<open>The merge selects a maximum\<close>











subsection \<open>The two archives, evaluated\<close>














subsection \<open>Downloading a package\<close>

text \<open>
  Claim C4, amended. \<open>FetchDeb\<close> makes up to three download attempts, with a wait of
  1 second before the second and of 2 seconds before the third. It retries after every
  failed attempt, whatever the failure (transport error, status outside 2xx, or an error
  writing the file), unless the context is cancelled: the next attempt is made exactly
  when the attempt before was made and failed, \<open>ctx.Err()\<close> was not set after it, and
  the context was not cancelled during the wait. When the context is cancelled during a
  wait the function returns the context's error and makes no further attempt.
\<close>

theorem FetchDeb_attempts:
  "prefix (snd (FetchDeb env f debURL)) [Attempt 0, Wait 1, Attempt 1, Wait 2, Attempt 2]
   \<and> (Attempt 1 \<in> set (snd (FetchDeb env f debURL)) \<longleftrightarrow>
        Attempt 0 \<in> set (snd (FetchDeb env f debURL))
        \<and> download_attempt (attempt_result env 0) \<noteq> None
        \<and> \<not> ctx_err_after env 0 \<and> \<not> cancelled_during_wait env 1)
   \<and> (Attempt 2 \<in> set (snd (FetchDeb env f debURL)) \<longleftrightarrow>
        Attempt 1 \<in> set (snd (FetchDeb env f debURL))
        \<and> download_attempt (attempt_result env 1) \<noteq> None
        \<and> \<not> ctx_err_after env 1 \<and> \<not> cancelled_during_wait env 2)
   \<and> (\<forall>i. Wait i \<in> set (snd (FetchDeb env f debURL)) \<and> cancelled_during_wait env i \<longrightarrow>
          fst (FetchDeb env f debURL) = Inl ContextError
          \<and> Attempt i \<notin> set (snd (FetchDeb env f debURL)))"
  by (auto simp: FetchDeb_def Let_def split: option.splits)

lemma FetchDeb_reset_then_ok:
  "FetchDeb reset_then_ok test_fetcher ''pool/test.deb'' =
     (Inr ''/tmp/work/test.deb'', [Attempt 0, Wait 1, Attempt 1])"
  by code_simp

lemma FetchDeb_cancelled_in_wait:
  "FetchDeb cancelled_in_wait test_fetcher ''pool/test.deb'' =
     (Inl ContextError, [Attempt 0, Wait 1])"
  by code_simp

theorem FetchDeb_attempts_witness:
  "Attempt 1 \<in> set (snd (FetchDeb reset_then_ok test_fetcher ''pool/test.deb''))
   \<and> Attempt 2 \<notin> set (snd (FetchDeb reset_then_ok test_fetcher ''pool/test.deb''))
   \<and> fst (FetchDeb cancelled_in_wait test_fetcher ''pool/test.deb'') = Inl ContextError
   \<and> Attempt 1 \<notin> set (snd (FetchDeb cancelled_in_wait test_fetcher ''pool/test.deb''))"
proof -
  have a0: "Attempt 0 \<in> set (snd (FetchDeb reset_then_ok test_fetcher ''pool/test.deb''))"
    by (simp add: FetchDeb_reset_then_ok)
  have f0: "download_attempt (attempt_result reset_then_ok 0) \<noteq> None"
    by (simp add: reset_then_ok_def download_attempt_def)
  have ok1: "download_attempt (attempt_result reset_then_ok 1) = None"
    by (simp add: reset_then_ok_def download_attempt_def)
  have nc: "\<not> ctx_err_after reset_then_ok 0 \<and> \<not> cancelled_during_wait reset_then_ok 1"
    by (simp add: reset_then_ok_def)
  have w1: "Wait 1 \<in> set (snd (FetchDeb cancelled_in_wait test_fetcher ''pool/test.deb''))"
    by (simp add: FetchDeb_cancelled_in_wait)
  have c1: "cancelled_during_wait cancelled_in_wait 1"
    by (simp add: cancelled_in_wait_def)
  show ?thesis
    using FetchDeb_attempts[of reset_then_ok test_fetcher "''pool/test.deb''"]
      FetchDeb_attempts[of cancelled_in_wait test_fetcher "''pool/test.deb''"]
      a0 f0 ok1 nc w1 c1
    by blast
qed

text \<open>
  The claim as stated fails: when every attempt is answered with the HTTP status 404,
  \<open>FetchDeb\<close> still makes three attempts.
\<close>

theorem FetchDeb_retries_on_http_status:
  "FetchDeb always_404 test_fetcher ''pool/f/foo_1.deb'' =
     (Inl (DownloadStatus 404), [Attempt 0, Wait 1, Attempt 1, Wait 2, Attempt 2])"
  by code_simp

subsection \<open>Sitemap generation\<close>

lemma splitURLs_returns: "splitURLs urls maxSitemapURLs \<noteq> None"
  by (simp add: splitURLs_def maxSitemapURLs_def)

lemma collect_urls_run:
  assumes "\<forall>k. \<not> ctx_done env k"
  shows "\<exists>s'. collect_urls env g release section lang entries urls s
               = (Inr (urls @ section_urls g release section lang entries), s')
             \<and> warnings s' = warnings s \<and> written s' = written s"
proof (induction entries arbitrary: urls s)
  case Nil
  then show ?case by (simp add: section_urls_def)
next
  case (Cons entry entries)
  let ?s1 = "s\<lparr>polls := Suc (polls s)\<rparr>"
  have poll: "ctx_Err env s = (False, ?s1)" using assms by (simp add: ctx_Err_def)
  show ?case
  proof (cases "HasSuffix (entry_Name entry) ''.html''")
    case False
    from Cons.IH[of urls ?s1] show ?thesis using poll False by (simp add: section_urls_def)
  next
    case True
    let ?u = "\<lparr> Loc = SiteURL g @
                (if lang \<noteq> []
                 then ''/manpages/'' @ release @ ''/'' @ lang @ ''/'' @ section @ ''/''
                        @ entry_Name entry
                 else ''/manpages/'' @ release @ ''/'' @ section @ ''/'' @ entry_Name entry),
              LastMod = (case entry_ModTime entry of Some d \<Rightarrow> d | None \<Rightarrow> []) \<rparr>"
    from Cons.IH[of "urls @ [?u]" ?s1] show ?thesis using poll True
      by (simp add: section_urls_def Let_def)
  qed
qed

lemma write_chunks_step:
  "write_chunks env g sitemapDir release section lang now n ((i, chunk) # ics) refs s =
     (if write_ok env (path_Join [sitemapDir, chunk_file release section lang n i])
      then write_chunks env g sitemapDir release section lang now n ics
             (refs @ [\<lparr> Loc = SiteURL g @ ''/sitemaps/'' @ chunk_file release section lang n i,
                         LastMod = now \<rparr>])
             (s\<lparr>written := written s
                   @ [(path_Join [sitemapDir, chunk_file release section lang n i], URLSet chunk)]\<rparr>)
      else (Inl (WriteXMLError (path_Join [sitemapDir, chunk_file release section lang n i])), s))"
  by (simp add: Let_def writeSitemap_def writeXML_def chunk_file_def)

lemma write_chunks_run:
  "\<exists>s'. (case find (\<lambda>ic. \<not> write_ok env (path_Join [sitemapDir,
                           chunk_file release section lang n (fst ic)])) ics of
           None \<Rightarrow> \<exists>refs'. write_chunks env g sitemapDir release section lang now n ics refs s
                            = (Inr refs', s')
         | Some ic \<Rightarrow> write_chunks env g sitemapDir release section lang now n ics refs s
                        = (Inl (WriteXMLError (path_Join [sitemapDir,
                              chunk_file release section lang n (fst ic)])), s'))
        \<and> warnings s' = warnings s
        \<and> (list_all is_urlset (written s) \<longrightarrow> list_all is_urlset (written s'))"
proof (induction ics arbitrary: refs s)
  case Nil
  then show ?case by simp
next
  case (Cons ic ics)
  obtain i chunk where ic: "ic = (i, chunk)" by (cases ic)
  let ?p = "path_Join [sitemapDir, chunk_file release section lang n i]"
  show ?case
  proof (cases "write_ok env ?p")
    case False
    then show ?thesis unfolding ic write_chunks_step by simp
  next
    case True
    let ?s1 = "s\<lparr>written := written s @ [(?p, URLSet chunk)]\<rparr>"
    let ?r = "refs @ [\<lparr> Loc = SiteURL g @ ''/sitemaps/'' @ chunk_file release section lang n i,
                         LastMod = now \<rparr>]"
    from Cons.IH[of ?r ?s1] show ?thesis
      unfolding ic write_chunks_step using True by (simp add: is_urlset_def)
  qed
qed


lemma find_zip_fst:
  "length xs = length ys \<Longrightarrow>
   map_option fst (find (\<lambda>ic. P (fst ic)) (zip xs ys)) = find P xs"
  by (induction xs ys rule: list_induct2) auto

lemma generateManSection_run:
  assumes "\<forall>k. \<not> ctx_done env k"
  shows "\<exists>s'. (case man_section_failure env g sitemapDir release section sectionDir lang of
                 None \<Rightarrow> \<exists>refs. generateManSection env g sitemapDir release section sectionDir lang s
                                 = (Inr refs, s')
               | Some e \<Rightarrow> generateManSection env g sitemapDir release section sectionDir lang s
                            = (Inl e, s'))
              \<and> warnings s' = warnings s
              \<and> (list_all is_urlset (written s) \<longrightarrow> list_all is_urlset (written s'))"
proof (cases "read_dir env sectionDir")
  case (Inl e)
  then show ?thesis by (simp add: man_section_failure_def generateManSection_def)
next
  case (Inr entries)
  let ?urls = "section_urls g release section lang entries"
  from collect_urls_run[OF assms, of g release "section" lang entries "[]" s] obtain s1 where
    c: "collect_urls env g release section lang entries [] s = (Inr ?urls, s1)"
    and w1: "warnings s1 = warnings s" "written s1 = written s" by auto
  show ?thesis
  proof (cases "?urls = []")
    case True
    then show ?thesis using Inr c w1
      by (simp add: man_section_failure_def generateManSection_def)
  next
    case False
    obtain chunks where ch: "splitURLs ?urls maxSitemapURLs = Some chunks"
      using splitURLs_returns[of ?urls] by auto
    let ?s2 = "s1\<lparr>clock_reads := Suc (clock_reads s1)\<rparr>"
    let ?n = "length chunks"
    let ?P = "\<lambda>i. \<not> write_ok env (path_Join [sitemapDir, chunk_file release section lang ?n i])"
    have run: "generateManSection env g sitemapDir release section sectionDir lang s
               = write_chunks env g sitemapDir release section lang (date_at env (clock_reads s1))
                   ?n (zip [0..<?n] chunks) [] ?s2"
      using Inr c False ch by (simp add: generateManSection_def time_Now_def)
    have fail: "man_section_failure env g sitemapDir release section sectionDir lang
               = (case find ?P [0..<?n] of
                    None \<Rightarrow> None
                  | Some i \<Rightarrow> Some (WriteXMLError
                       (path_Join [sitemapDir, chunk_file release section lang ?n i])))"
      using Inr False ch by (simp add: man_section_failure_def)
    have fz: "map_option fst (find (\<lambda>ic. ?P (fst ic)) (zip [0..<?n] chunks)) = find ?P [0..<?n]"
      by (rule find_zip_fst) simp
    from write_chunks_run[of env g sitemapDir release "section" lang "date_at env (clock_reads s1)" ?n
        "zip [0..<?n] chunks" "[]" ?s2]
    obtain s' where
      r: "(case find (\<lambda>ic. ?P (fst ic)) (zip [0..<?n] chunks) of
             None \<Rightarrow> \<exists>refs'. write_chunks env g sitemapDir release section lang
                                (date_at env (clock_reads s1)) ?n (zip [0..<?n] chunks) [] ?s2
                              = (Inr refs', s')
           | Some ic \<Rightarrow> write_chunks env g sitemapDir release section lang
                            (date_at env (clock_reads s1)) ?n (zip [0..<?n] chunks) [] ?s2
                          = (Inl (WriteXMLError (path_Join [sitemapDir,
                                chunk_file release section lang ?n (fst ic)])), s'))"
      and w2: "warnings s' = warnings ?s2"
        "list_all is_urlset (written ?s2) \<longrightarrow> list_all is_urlset (written s')"
      by auto
    show ?thesis
    proof (cases "find (\<lambda>ic. ?P (fst ic)) (zip [0..<?n] chunks)")
      case None
      then have "find ?P [0..<?n] = None" using fz by simp
      then show ?thesis using r None w2 w1 unfolding run fail by auto
    next
      case (Some ic)
      then have "find ?P [0..<?n] = Some (fst ic)" using fz by simp
      then show ?thesis using r Some w2 w1 unfolding run fail by auto
    qed
  qed
qed

lemma man_section_failure_not_fatal:
  "man_section_failure env g sitemapDir release section sectionDir lang = Some e \<Longrightarrow> \<not> fatal e"
  by (auto simp: man_section_failure_def fatal_def splitURLs_returns
      split: sum.splits if_splits option.splits)

lemma lang_sections_run:
  assumes "Logger g" and "\<forall>k. \<not> ctx_done env k"
  shows "\<exists>refs' s'. lang_sections env g sitemapDir release dirName dirPath entries refs s
                      = (Inr refs', s')
           \<and> warnings s' = warnings s
                @ lang_warnings env g sitemapDir release dirName dirPath entries
           \<and> (list_all is_urlset (written s) \<longrightarrow> list_all is_urlset (written s'))"
proof (induction entries arbitrary: refs s)
  case Nil
  then show ?case by (simp add: lang_warnings_def)
next
  case (Cons entry entries)
  show ?case
  proof (cases "\<not> entry_IsDir entry \<or> \<not> HasPrefix (entry_Name entry) ''man''")
    case True
    then show ?thesis using Cons.IH[of refs s] by (auto simp: lang_warnings_def)
  next
    case False
    let ?f = "man_section_failure env g sitemapDir release (entry_Name entry)
                (path_Join [dirPath, entry_Name entry]) dirName"
    from generateManSection_run[OF assms(2), of g sitemapDir release "entry_Name entry"
        "path_Join [dirPath, entry_Name entry]" dirName s]
    obtain s1 where
      m: "(case ?f of
             None \<Rightarrow> \<exists>r. generateManSection env g sitemapDir release (entry_Name entry)
                            (path_Join [dirPath, entry_Name entry]) dirName s = (Inr r, s1)
           | Some e \<Rightarrow> generateManSection env g sitemapDir release (entry_Name entry)
                            (path_Join [dirPath, entry_Name entry]) dirName s = (Inl e, s1))"
      and w1: "warnings s1 = warnings s"
        "list_all is_urlset (written s) \<longrightarrow> list_all is_urlset (written s1)"
      by auto
    have lw: "lang_warnings env g sitemapDir release dirName dirPath (entry # entries)
              = (case ?f of None \<Rightarrow> []
                 | Some e \<Rightarrow> [LangSectionError release dirName (entry_Name entry) e])
                @ lang_warnings env g sitemapDir release dirName dirPath entries"
      using False by (simp add: lang_warnings_def)
    show ?thesis
    proof (cases ?f)
      case None
      then obtain r where g: "generateManSection env g sitemapDir release (entry_Name entry)
                            (path_Join [dirPath, entry_Name entry]) dirName s = (Inr r, s1)"
        using m by auto
      from Cons.IH[of "refs @ r" s1] show ?thesis
        unfolding lw using False g None w1 by auto
    next
      case (Some e)
      then have g: "generateManSection env g sitemapDir release (entry_Name entry)
                            (path_Join [dirPath, entry_Name entry]) dirName s = (Inl e, s1)"
        using m by auto
      have nf: "\<not> fatal e" using Some by (rule man_section_failure_not_fatal)
      let ?s2 = "s1\<lparr>warnings := warnings s1
                     @ [LangSectionError release dirName (entry_Name entry) e]\<rparr>"
      from Cons.IH[of refs ?s2] show ?thesis
        unfolding lw using False g Some w1 nf assms(1) by auto
    qed
  qed
qed

lemma release_sections_run:
  assumes "Logger g" and "\<forall>k. \<not> ctx_done env k"
  shows "\<exists>refs' s'. release_sections env g sitemapDir release releaseDir entries refs s
                      = (Inr refs', s')
           \<and> warnings s' = warnings s
                @ concat (map (section_warnings env g sitemapDir release releaseDir) entries)
           \<and> (list_all is_urlset (written s) \<longrightarrow> list_all is_urlset (written s'))"
proof (induction entries arbitrary: refs s)
  case Nil
  then show ?case by simp
next
  case (Cons entry entries)
  let ?name = "entry_Name entry"
  let ?p = "path_Join [releaseDir, ?name]"
  show ?case
  proof (cases "entry_IsDir entry")
    case False
    then show ?thesis using Cons.IH[of refs s] by (auto simp: section_warnings_def)
  next
    case True
    have "\<exists>r s1. generateSection env g sitemapDir release ?name ?p s = (r, s1)
            \<and> (\<forall>e. r = Inl e \<longrightarrow> \<not> fatal e)
            \<and> warnings s1 @ (case r of Inl e \<Rightarrow> [SectionError release ?name e] | Inr x \<Rightarrow> [])
                = warnings s @ section_warnings env g sitemapDir release releaseDir entry
            \<and> (list_all is_urlset (written s) \<longrightarrow> list_all is_urlset (written s1))"
    proof (cases "HasPrefix ?name ''man''")
      case man: True
      let ?f = "man_section_failure env g sitemapDir release ?name ?p []"
      from generateManSection_run[OF assms(2), of g sitemapDir release ?name ?p "[]" s]
      obtain s1 where
        m: "(case ?f of
               None \<Rightarrow> \<exists>r. generateManSection env g sitemapDir release ?name ?p [] s = (Inr r, s1)
             | Some e \<Rightarrow> generateManSection env g sitemapDir release ?name ?p [] s = (Inl e, s1))"
        and w1: "warnings s1 = warnings s"
          "list_all is_urlset (written s) \<longrightarrow> list_all is_urlset (written s1)"
        by auto
      show ?thesis
      proof (cases ?f)
        case None
        then show ?thesis using m w1 True man
          by (auto simp: generateSection_def section_warnings_def)
      next
        case (Some e)
        then show ?thesis using m w1 True man man_section_failure_not_fatal[OF Some]
          by (auto simp: generateSection_def section_warnings_def)
      qed
    next
      case lang: False
      show ?thesis
      proof (cases "read_dir env ?p")
        case (Inl e)
        then show ?thesis using True lang
          by (simp add: generateSection_def section_warnings_def fatal_def)
      next
        case (Inr sub)
        from lang_sections_run[OF assms, of sitemapDir release ?name ?p sub "[]" s]
        show ?thesis using True lang Inr
          by (auto simp: generateSection_def section_warnings_def)
      qed
    qed
    then obtain r s1 where
      gs: "generateSection env g sitemapDir release ?name ?p s = (r, s1)"
      and nf: "\<forall>e. r = Inl e \<longrightarrow> \<not> fatal e"
      and w1: "warnings s1 @ (case r of Inl e \<Rightarrow> [SectionError release ?name e] | Inr x \<Rightarrow> [])
                = warnings s @ section_warnings env g sitemapDir release releaseDir entry"
        "list_all is_urlset (written s) \<longrightarrow> list_all is_urlset (written s1)"
      by auto
    show ?thesis
    proof (cases r)
      case (Inl e)
      let ?s2 = "s1\<lparr>warnings := warnings s1 @ [SectionError release ?name e]\<rparr>"
      from Cons.IH[of refs ?s2] show ?thesis
        using True gs Inl nf w1 assms(1) by auto
    next
      case (Inr rs)
      from Cons.IH[of "refs @ rs" s1] show ?thesis
        using True gs Inr w1 by auto
    qed
  qed
qed

lemma release_loop_run:
  assumes "Logger g" and "\<forall>k. \<not> ctx_done env k"
  shows "\<exists>s'. (case find (unreadable env g) releases of
                 None \<Rightarrow> \<exists>refs'. release_loop env g (path_Join [Root g, ''sitemaps''])
                                    releases refs s = (Inr refs', s')
               | Some release \<Rightarrow>
                   \<exists>e. read_dir env (path_Join [Root g, ''manpages'', release]) = Inl e
                       \<and> release_loop env g (path_Join [Root g, ''sitemaps'']) releases refs s
                           = (Inl (ReadReleaseDir release e), s'))
           \<and> warnings s' = warnings s
                @ concat (map (release_warnings env g)
                            (takeWhile (\<lambda>release. \<not> unreadable env g release) releases))
           \<and> (list_all is_urlset (written s) \<longrightarrow> list_all is_urlset (written s'))"
proof (induction releases arbitrary: refs s)
  case Nil
  then show ?case by simp
next
  case (Cons release releases)
  let ?d = "path_Join [Root g, ''manpages'', release]"
  let ?s1 = "s\<lparr>polls := Suc (polls s)\<rparr>"
  have poll: "ctx_Err env s = (False, ?s1)" using assms(2) by (simp add: ctx_Err_def)
  show ?case
  proof (cases "read_dir env ?d")
    case (Inl e)
    show ?thesis
    proof (cases "e = NotExist")
      case True
      have u: "\<not> unreadable env g release" using Inl True by (simp add: unreadable_def)
      have rw: "release_warnings env g release = []" using Inl by (simp add: release_warnings_def)
      have step: "release_loop env g (path_Join [Root g, ''sitemaps'']) (release # releases) refs s
                  = release_loop env g (path_Join [Root g, ''sitemaps'']) releases refs ?s1"
        using poll Inl True by simp
      from Cons.IH[of refs ?s1] show ?thesis unfolding step using u rw by auto
    next
      case False
      have u: "unreadable env g release" using Inl False by (simp add: unreadable_def)
      show ?thesis using poll Inl False u by auto
    qed
  next
    case (Inr entries)
    have u: "\<not> unreadable env g release" using Inr by (simp add: unreadable_def)
    have rw: "release_warnings env g release
              = concat (map (section_warnings env g (path_Join [Root g, ''sitemaps'']) release ?d)
                          entries)"
      using Inr by (simp add: release_warnings_def)
    from release_sections_run[OF assms, of "path_Join [Root g, ''sitemaps'']" release ?d entries
        refs ?s1]
    obtain refs2 s2 where
      rs: "release_sections env g (path_Join [Root g, ''sitemaps'']) release ?d entries refs ?s1
           = (Inr refs2, s2)"
      and w2: "warnings s2 = warnings ?s1 @ release_warnings env g release"
        "list_all is_urlset (written ?s1) \<longrightarrow> list_all is_urlset (written s2)"
      unfolding rw by auto
    have step: "release_loop env g (path_Join [Root g, ''sitemaps'']) (release # releases) refs s
                = release_loop env g (path_Join [Root g, ''sitemaps'']) releases refs2 s2"
      using poll Inr rs by simp
    from Cons.IH[of refs2 s2] show ?thesis
      unfolding step using u w2 by auto
  qed
qed


text \<open>
  Claim C9, amended. During sitemap generation, with a generator that has a logger, once the
  sitemaps directory and the static sitemap are written and while the context is not
  cancelled: a release whose directory does not exist is skipped; every failure affecting a
  single section is logged and skipped, be it a man section or a language directory that
  cannot be listed, a man section under a language directory that cannot be listed, or a
  section sitemap that cannot be written, and nothing else is logged; when every release
  directory can be listed or does not exist, the run ends by writing the sitemap index, the
  result of the run being the result of that write, and the index is the last file written.
  A release directory that fails to list with any other error aborts the generation at that
  release with the error \<open>read release dir\<close>: the failures of the releases before it are
  logged and no sitemap index is written.
\<close>

theorem Generate_skips_failed_sections:
  assumes "mkdir_sitemaps_ok env"
    and "write_ok env (path_Join [path_Join [Root g, ''sitemaps''], ''sitemap-static.xml''])"
    and "Logger g"
    and "\<forall>k. \<not> ctx_done env k"
  shows "warnings (snd (Generate env g releases))
           = concat (map (release_warnings env g)
                       (takeWhile (\<lambda>release. \<not> unreadable env g release) releases))
         \<and> (case find (unreadable env g) releases of
               None \<Rightarrow>
                 fst (Generate env g releases)
                   = (if write_ok env (path_Join [path_Join [Root g, ''sitemaps''], ''sitemap-index.xml''])
                      then None
                      else Some (WriteXMLError
                                   (path_Join [path_Join [Root g, ''sitemaps''], ''sitemap-index.xml''])))
                 \<and> (write_ok env (path_Join [path_Join [Root g, ''sitemaps''], ''sitemap-index.xml''])
                      \<longrightarrow> (\<exists>indexRefs. last (written (snd (Generate env g releases))) =
                             (path_Join [path_Join [Root g, ''sitemaps''], ''sitemap-index.xml''],
                              SitemapIndex indexRefs)))
             | Some release \<Rightarrow>
                 (\<exists>e. read_dir env (path_Join [Root g, ''manpages'', release]) = Inl e
                      \<and> fst (Generate env g releases) = Some (ReadReleaseDir release e))
                 \<and> list_all is_urlset (written (snd (Generate env g releases))))"
proof -
  let ?dir = "path_Join [Root g, ''sitemaps'']"
  let ?now = "date_at env 0"
  let ?static = "[\<lparr> Loc = SiteURL g @ ''/'', LastMod = ?now \<rparr>,
                        \<lparr> Loc = SiteURL g @ ''/search'', LastMod = ?now \<rparr>,
                        \<lparr> Loc = SiteURL g @ ''/manpages/'', LastMod = ?now \<rparr>]
                       @ map (\<lambda>rel. \<lparr> Loc = SiteURL g @ ''/manpages/'' @ rel @ ''/'',
                                       LastMod = ?now \<rparr>) releases"
  let ?s1 = "\<lparr> written = [(path_Join [?dir, ''sitemap-static.xml''], URLSet ?static)],
              warnings = [], polls = 0, clock_reads = Suc 0 \<rparr>"
  let ?refs0 = "[\<lparr> Loc = SiteURL g @ ''/sitemaps/'' @ ''sitemap-static.xml'', LastMod = ?now \<rparr>]"
  have g: "Generate env g releases =
      (case release_loop env g ?dir releases ?refs0 ?s1 of
         (Inl e, s2) \<Rightarrow> (Some e, s2)
       | (Inr indexRefs, s2) \<Rightarrow>
           writeXML env (path_Join [?dir, ''sitemap-index.xml'']) (SitemapIndex indexRefs) s2)"
    using assms(1,2)
    by (simp add: Generate_def Let_def time_Now_def initial_state_def writeSitemap_def writeXML_def)
  from release_loop_run[OF assms(3,4), of releases ?refs0 ?s1] obtain s' where
    r: "(case find (unreadable env g) releases of
           None \<Rightarrow> \<exists>refs'. release_loop env g ?dir releases ?refs0 ?s1 = (Inr refs', s')
         | Some release \<Rightarrow>
             \<exists>e. read_dir env (path_Join [Root g, ''manpages'', release]) = Inl e
                 \<and> release_loop env g ?dir releases ?refs0 ?s1
                     = (Inl (ReadReleaseDir release e), s'))"
    and w: "warnings s' = concat (map (release_warnings env g)
                            (takeWhile (\<lambda>release. \<not> unreadable env g release) releases))"
    and u: "list_all is_urlset (written s')"
    by (auto simp: is_urlset_def)
  show ?thesis
  proof (cases "find (unreadable env g) releases")
    case None
    then obtain refs' where "release_loop env g ?dir releases ?refs0 ?s1 = (Inr refs', s')"
      using r by auto
    then have "Generate env g releases =
        writeXML env (path_Join [?dir, ''sitemap-index.xml'']) (SitemapIndex refs') s'"
      using g by simp
    then show ?thesis using None w by (auto simp: writeXML_def)
  next
    case (Some release)
    then obtain e where e: "read_dir env (path_Join [Root g, ''manpages'', release]) = Inl e"
      "release_loop env g ?dir releases ?refs0 ?s1 = (Inl (ReadReleaseDir release e), s')"
      using r by auto
    then have "Generate env g releases = (Some (ReadReleaseDir release e), s')"
      using g by simp
    then show ?thesis using Some w u e(1) by simp
  qed
qed

lemma noble_dir: "path_Join [Root html_root, ''manpages'', ''noble''] = ''/www/manpages/noble''"
  by code_simp

lemma index_path:
  "path_Join [path_Join [Root html_root, ''sitemaps''], ''sitemap-index.xml''] =
     ''/www/sitemaps/sitemap-index.xml''"
  by code_simp

lemma man_section_failure_one_file:
  assumes "read_dir env sectionDir = Inr entries"
    and "section_urls g release section lang entries \<noteq> []"
    and "length entries \<le> 50000"
  shows "man_section_failure env g sitemapDir release section sectionDir lang =
           (if write_ok env (path_Join [sitemapDir, chunk_file release section lang 1 0]) then None
            else Some (WriteXMLError (path_Join [sitemapDir, chunk_file release section lang 1 0])))"
proof -
  have "length (section_urls g release section lang entries) \<le> length entries"
    by (simp add: section_urls_def)
  then have "splitURLs (section_urls g release section lang entries) maxSitemapURLs
             = Some [section_urls g release section lang entries]"
    using assms(3) by (simp add: splitURLs_def maxSitemapURLs_def)
  then show ?thesis using assms(1,2) by (simp add: man_section_failure_def)
qed

lemma plucky_dir: "path_Join [Root html_root, ''manpages'', ''plucky''] = ''/www/manpages/plucky''"
  by code_simp

lemma sitemaps_dir: "path_Join [Root html_root, ''sitemaps''] = ''/www/sitemaps''"
  by code_simp

lemma noble_man1_warnings:
  "section_warnings failing_sections html_root ''/www/sitemaps'' ''noble'' ''/www/manpages/noble''
     (dir_entry ''man1'') = [SectionError ''noble'' ''man1'' (ReadDirError PermissionDenied)]"
  by code_simp

lemma noble_fr_warnings:
  "section_warnings failing_sections html_root ''/www/sitemaps'' ''noble'' ''/www/manpages/noble''
     (dir_entry ''fr'') = [SectionError ''noble'' ''fr'' (ReadDirError PermissionDenied)]"
  by code_simp

lemma failing_sections_writable:
  "write_ok failing_sections p = (p \<noteq> ''/www/sitemaps/sitemap-noble-man5.xml'')"
  by (simp add: failing_sections_def)

lemma noble_man5_failure:
  "man_section_failure failing_sections html_root ''/www/sitemaps'' ''noble'' ''man5''
     ''/www/manpages/noble/man5'' []
   = Some (WriteXMLError ''/www/sitemaps/sitemap-noble-man5.xml'')"
proof -
  have rd: "read_dir failing_sections ''/www/manpages/noble/man5'' = Inr [file_entry ''passwd.5.html'']"
    by (simp add: failing_sections_def)
  have urls: "section_urls html_root ''noble'' ''man5'' [] [file_entry ''passwd.5.html''] \<noteq> []"
    by code_simp
  have p: "path_Join [''/www/sitemaps'', chunk_file ''noble'' ''man5'' [] 1 0]
           = ''/www/sitemaps/sitemap-noble-man5.xml''"
    by code_simp
  show ?thesis
    using man_section_failure_one_file[OF rd urls, of "''/www/sitemaps''"]
    unfolding p failing_sections_writable by simp
qed

lemma noble_man3_failure:
  "man_section_failure failing_sections html_root ''/www/sitemaps'' ''noble'' ''man3''
     ''/www/manpages/noble/man3'' [] = None"
proof -
  have rd: "read_dir failing_sections ''/www/manpages/noble/man3''
            = Inr [file_entry ''printf.3.html'', file_entry ''x.txt'']"
    by (simp add: failing_sections_def)
  have urls: "section_urls html_root ''noble'' ''man3'' []
                [file_entry ''printf.3.html'', file_entry ''x.txt''] \<noteq> []"
    by code_simp
  have p: "path_Join [''/www/sitemaps'', chunk_file ''noble'' ''man3'' [] 1 0]
           = ''/www/sitemaps/sitemap-noble-man3.xml''"
    by code_simp
  show ?thesis
    using man_section_failure_one_file[OF rd urls, of "''/www/sitemaps''"]
    unfolding p failing_sections_writable by simp
qed

lemma noble_de_man1_failure:
  "man_section_failure failing_sections html_root ''/www/sitemaps'' ''noble'' ''man1''
     ''/www/manpages/noble/de/man1'' ''de'' = None"
proof -
  have rd: "read_dir failing_sections ''/www/manpages/noble/de/man1'' = Inr [file_entry ''ls.1.html'']"
    by (simp add: failing_sections_def)
  have urls: "section_urls html_root ''noble'' ''man1'' ''de'' [file_entry ''ls.1.html''] \<noteq> []"
    by code_simp
  have p: "path_Join [''/www/sitemaps'', chunk_file ''noble'' ''man1'' ''de'' 1 0]
           = ''/www/sitemaps/sitemap-noble-de-man1.xml''"
    by code_simp
  show ?thesis
    using man_section_failure_one_file[OF rd urls, of "''/www/sitemaps''"]
    unfolding p failing_sections_writable by simp
qed

lemma noble_de_man8_failure:
  "man_section_failure failing_sections html_root ''/www/sitemaps'' ''noble'' ''man8''
     ''/www/manpages/noble/de/man8'' ''de'' = Some (ReadDirError PermissionDenied)"
  by code_simp

lemma entry_fields:
  "entry_Name (dir_entry n) = n" "entry_IsDir (dir_entry n)"
  "entry_Name (file_entry n) = n" "\<not> entry_IsDir (file_entry n)"
  by (simp_all add: dir_entry_def file_entry_def)

lemma noble_paths:
  "path_Join [''/www/manpages/noble'', ''man3''] = ''/www/manpages/noble/man3''"
  "path_Join [''/www/manpages/noble'', ''man5''] = ''/www/manpages/noble/man5''"
  "path_Join [''/www/manpages/noble'', ''de''] = ''/www/manpages/noble/de''"
  "path_Join [''/www/manpages/noble/de'', ''man1''] = ''/www/manpages/noble/de/man1''"
  "path_Join [''/www/manpages/noble/de'', ''man8''] = ''/www/manpages/noble/de/man8''"
  by code_simp+

lemma man_prefixes:
  "HasPrefix ''man1'' ''man''" "HasPrefix ''man3'' ''man''" "HasPrefix ''man5'' ''man''"
  "HasPrefix ''man8'' ''man''" "\<not> HasPrefix ''de'' ''man''"
  by code_simp+

lemma noble_warnings:
  "release_warnings failing_sections html_root ''noble'' =
     [SectionError ''noble'' ''man1'' (ReadDirError PermissionDenied),
      LangSectionError ''noble'' ''de'' ''man8'' (ReadDirError PermissionDenied),
      SectionError ''noble'' ''fr'' (ReadDirError PermissionDenied),
      SectionError ''noble'' ''man5'' (WriteXMLError ''/www/sitemaps/sitemap-noble-man5.xml'')]"
proof -
  have rd: "read_dir failing_sections ''/www/manpages/noble''
            = Inr [dir_entry ''man1'', dir_entry ''man3'', dir_entry ''de'', dir_entry ''fr'',
                   dir_entry ''man5'']"
    "read_dir failing_sections ''/www/manpages/noble/de''
            = Inr [dir_entry ''man1'', dir_entry ''man8'', file_entry ''README'']"
    by (simp_all add: failing_sections_def)
  have man3: "section_warnings failing_sections html_root ''/www/sitemaps'' ''noble''
      ''/www/manpages/noble'' (dir_entry ''man3'') = []"
    by (simp add: section_warnings_def entry_fields man_prefixes noble_paths noble_man3_failure)
  have man5: "section_warnings failing_sections html_root ''/www/sitemaps'' ''noble''
      ''/www/manpages/noble'' (dir_entry ''man5'')
      = [SectionError ''noble'' ''man5'' (WriteXMLError ''/www/sitemaps/sitemap-noble-man5.xml'')]"
    by (simp add: section_warnings_def entry_fields man_prefixes noble_paths noble_man5_failure)
  have de: "section_warnings failing_sections html_root ''/www/sitemaps'' ''noble''
      ''/www/manpages/noble'' (dir_entry ''de'')
      = [LangSectionError ''noble'' ''de'' ''man8'' (ReadDirError PermissionDenied)]"
    by (simp add: section_warnings_def lang_warnings_def entry_fields man_prefixes noble_paths rd
        noble_de_man1_failure noble_de_man8_failure)
  show ?thesis
    by (simp add: release_warnings_def noble_dir sitemaps_dir rd noble_man1_warnings man3 de
        noble_fr_warnings man5)
qed

lemma jammy_warnings: "release_warnings failing_sections html_root ''jammy'' = []"
  by code_simp

lemma failing_sections_unreadable:
  "unreadable failing_sections html_root ''noble'' = False"
  "unreadable failing_sections html_root ''jammy'' = False"
  "unreadable failing_sections html_root ''plucky'' = True"
  by code_simp+

theorem Generate_skips_failed_sections_witness:
  "fst (Generate failing_sections html_root [''jammy'', ''noble'']) = None
   \<and> (\<exists>indexRefs. last (written (snd (Generate failing_sections html_root [''jammy'', ''noble''])))
         = (''/www/sitemaps/sitemap-index.xml'', SitemapIndex indexRefs))
   \<and> warnings (snd (Generate failing_sections html_root [''jammy'', ''noble''])) =
       [SectionError ''noble'' ''man1'' (ReadDirError PermissionDenied),
        LangSectionError ''noble'' ''de'' ''man8'' (ReadDirError PermissionDenied),
        SectionError ''noble'' ''fr'' (ReadDirError PermissionDenied),
        SectionError ''noble'' ''man5'' (WriteXMLError ''/www/sitemaps/sitemap-noble-man5.xml'')]
   \<and> fst (Generate failing_sections html_root [''noble'', ''plucky'', ''jammy''])
       = Some (ReadReleaseDir ''plucky'' PermissionDenied)
   \<and> list_all is_urlset
         (written (snd (Generate failing_sections html_root [''noble'', ''plucky'', ''jammy''])))
   \<and> warnings (snd (Generate failing_sections html_root [''noble'', ''plucky'', ''jammy''])) =
       [SectionError ''noble'' ''man1'' (ReadDirError PermissionDenied),
        LangSectionError ''noble'' ''de'' ''man8'' (ReadDirError PermissionDenied),
        SectionError ''noble'' ''fr'' (ReadDirError PermissionDenied),
        SectionError ''noble'' ''man5'' (WriteXMLError ''/www/sitemaps/sitemap-noble-man5.xml'')]"
proof -
  have h1: "mkdir_sitemaps_ok failing_sections" by (simp add: failing_sections_def)
  have h2: "write_ok failing_sections
      (path_Join [path_Join [Root html_root, ''sitemaps''], ''sitemap-static.xml''])"
    by code_simp
  have h3: "Logger html_root" by (simp add: html_root_def)
  have h4: "\<forall>k. \<not> ctx_done failing_sections k" by (simp add: failing_sections_def)
  have wi: "write_ok failing_sections ''/www/sitemaps/sitemap-index.xml''"
    by (simp add: failing_sections_def)
  have rd: "read_dir failing_sections ''/www/manpages/plucky'' = Inl PermissionDenied"
    by (simp add: failing_sections_def)
  note t1 = Generate_skips_failed_sections[OF h1 h2 h3 h4, of "[''jammy'', ''noble'']"]
  note t2 = Generate_skips_failed_sections[OF h1 h2 h3 h4, of "[''noble'', ''plucky'', ''jammy'']"]
  have a: "fst (Generate failing_sections html_root [''jammy'', ''noble'']) = None
   \<and> (\<exists>indexRefs. last (written (snd (Generate failing_sections html_root [''jammy'', ''noble''])))
         = (''/www/sitemaps/sitemap-index.xml'', SitemapIndex indexRefs))
   \<and> warnings (snd (Generate failing_sections html_root [''jammy'', ''noble''])) =
       [SectionError ''noble'' ''man1'' (ReadDirError PermissionDenied),
        LangSectionError ''noble'' ''de'' ''man8'' (ReadDirError PermissionDenied),
        SectionError ''noble'' ''fr'' (ReadDirError PermissionDenied),
        SectionError ''noble'' ''man5'' (WriteXMLError ''/www/sitemaps/sitemap-noble-man5.xml'')]"
    using t1 wi
    by (simp add: failing_sections_unreadable noble_warnings jammy_warnings index_path)
  have b: "fst (Generate failing_sections html_root [''noble'', ''plucky'', ''jammy''])
       = Some (ReadReleaseDir ''plucky'' PermissionDenied)
   \<and> list_all is_urlset
         (written (snd (Generate failing_sections html_root [''noble'', ''plucky'', ''jammy''])))
   \<and> warnings (snd (Generate failing_sections html_root [''noble'', ''plucky'', ''jammy''])) =
       [SectionError ''noble'' ''man1'' (ReadDirError PermissionDenied),
        LangSectionError ''noble'' ''de'' ''man8'' (ReadDirError PermissionDenied),
        SectionError ''noble'' ''fr'' (ReadDirError PermissionDenied),
        SectionError ''noble'' ''man5'' (WriteXMLError ''/www/sitemaps/sitemap-noble-man5.xml'')]"
    using t2 rd
    by (simp add: failing_sections_unreadable noble_warnings plucky_dir)
  show ?thesis using a b by simp
qed

text \<open>
  The claim as stated fails: a release directory that exists and cannot be read ends the
  generation with an error; nothing is logged and the index is not written.
\<close>

theorem Generate_aborts_on_unreadable_release:
  "fst (Generate unreadable_release html_root [''noble'']) =
     Some (ReadReleaseDir ''noble'' PermissionDenied)
   \<and> map fst (written (snd (Generate unreadable_release html_root [''noble''])))
       = [''/www/sitemaps/sitemap-static.xml'']
   \<and> warnings (snd (Generate unreadable_release html_root [''noble''])) = []"
  by code_simp

subsection \<open>The pipeline runner\<close>

lemma writeFileAbsolute_ok:
  "writeFileAbsolute env p c s = (None, s1) \<Longrightarrow>
   files s1 = (files s)(p \<mapsto> RegularFile c) \<and> failures s1 = failures s"
  by (auto simp: writeFileAbsolute_def split: option.splits storage_failure.splits)

lemma writeSymlink_ok:
  "writeSymlink env r d t s = (None, s1) \<Longrightarrow>
   files s1 = (files s)(path_Join [StorageRoot r, d] \<mapsto> SymlinkTo t) \<and> failures s1 = failures s"
  by (auto simp: writeSymlink_def Let_def split: option.splits storage_failure.splits)

lemma writeFile_ok:
  "writeFile env r d c s = (None, s1) \<Longrightarrow>
   files s1 = (files s)(path_Join [StorageRoot r, d] \<mapsto> RegularFile c) \<and> failures s1 = failures s"
  by (simp add: writeFile_def writeFileAbsolute_ok)

lemma writeFileAbsolute_fst:
  "fst (writeFileAbsolute env p c s) = fst (writeFileAbsolute env p c s')"
  by (auto simp: writeFileAbsolute_def split: option.splits storage_failure.splits)

lemma writeSymlink_fst: "fst (writeSymlink env r d t s) = fst (writeSymlink env r d t s')"
  by (auto simp: writeSymlink_def Let_def split: option.splits storage_failure.splits)

lemma ProcessSingleManpage_convert_error:
  "ProcessSingleManpage env r release m s = (Some ConvertError, s1) \<Longrightarrow> s1 = s"
  by (auto simp: ProcessSingleManpage_def Let_def
      split: sum.splits if_splits prod.splits option.splits)

lemma ProcessSingleManpage_fst:
  "fst (ProcessSingleManpage env r release m s) = fst (ProcessSingleManpage env r release m s')"
proof -
  have wse: "fst (writeSymlink env r d t a) = fst (writeSymlink env r d t b)" for d t a b
    by (rule writeSymlink_fst)
  have wfe: "fst (writeFile env r d c a) = fst (writeFile env r d c b)" for d c a b
    unfolding writeFile_def by (rule writeFileAbsolute_fst)
  show ?thesis
  proof (cases "ParseManpagePath release (RelativePath m)")
    case (Inl e)
    then show ?thesis by (simp add: ProcessSingleManpage_def)
  next
    case (Inr paths)
    show ?thesis
    proof (cases "IsSymlink m")
      case True
      let ?t = "ConvertSymlinkTarget (SymlinkTarget m)"
      obtain e1 a1 where a: "writeSymlink env r (HTMLPath paths) ?t s = (e1, a1)"
        by (cases "writeSymlink env r (HTMLPath paths) ?t s")
      obtain e1' a1' where a': "writeSymlink env r (HTMLPath paths) ?t s' = (e1', a1')"
        by (cases "writeSymlink env r (HTMLPath paths) ?t s'")
      have e1: "e1' = e1" using wse[of "HTMLPath paths" ?t s s'] a a' by simp
      obtain e2 a2 where b: "writeSymlink env r (GzipPath paths) (SymlinkTarget m) a1 = (e2, a2)"
        by (cases "writeSymlink env r (GzipPath paths) (SymlinkTarget m) a1")
      obtain e2' a2' where b': "writeSymlink env r (GzipPath paths) (SymlinkTarget m) a1' = (e2', a2')"
        by (cases "writeSymlink env r (GzipPath paths) (SymlinkTarget m) a1'")
      have e2: "e2' = e2" using wse[of "GzipPath paths" "SymlinkTarget m" a1 a1'] b b' by simp
      show ?thesis using Inr True a a' b b' e1 e2
        by (auto simp: ProcessSingleManpage_def split: option.splits)
    next
      case False
      show ?thesis
      proof (cases "detect_so env (Path m)")
        case None
        then show ?thesis using Inr False by (simp add: ProcessSingleManpage_def)
      next
        case (Some so)
        show ?thesis
        proof (cases so)
          case (Some target)
          obtain e1 a1 where a: "writeSymlink env r (HTMLPath paths) (ConvertSoTarget target) s = (e1, a1)"
            by (cases "writeSymlink env r (HTMLPath paths) (ConvertSoTarget target) s")
          obtain e1' a1' where a': "writeSymlink env r (HTMLPath paths) (ConvertSoTarget target) s' = (e1', a1')"
            by (cases "writeSymlink env r (HTMLPath paths) (ConvertSoTarget target) s'")
          have e1: "e1' = e1" using wse[of "HTMLPath paths" "ConvertSoTarget target" s s'] a a' by simp
          show ?thesis using Inr False Some \<open>detect_so env (Path m) = Some so\<close> a a' e1
            by (auto simp: ProcessSingleManpage_def split: option.splits)
        next
          case None
          with \<open>detect_so env (Path m) = Some so\<close> have so: "detect_so env (Path m) = Some None" by simp
          show ?thesis
          proof (cases "convert_manpage env (Path m)")
            case None
            then show ?thesis using Inr False so by (simp add: ProcessSingleManpage_def)
          next
            case (Some rawHTML)
            let ?meta = "(Meta m)\<lparr>MetaFilename := filepath_Base (RelativePath m)\<rparr>"
            show ?thesis
            proof (cases "transform_pipeline env release rawHTML ?meta")
              case None
              then show ?thesis using Inr False so Some by (simp add: ProcessSingleManpage_def)
            next
              case tr: (Some bt)
              obtain body title where bt: "bt = (body, title)" by (cases bt)
              obtain e1 a1 where a: "writeFile env r (HTMLPath paths) body s = (e1, a1)"
                by (cases "writeFile env r (HTMLPath paths) body s")
              obtain e1' a1' where a': "writeFile env r (HTMLPath paths) body s' = (e1', a1')"
                by (cases "writeFile env r (HTMLPath paths) body s'")
              have e1: "e1' = e1" using wfe[of "HTMLPath paths" body s s'] a a' by simp
              have rest: "fst (case read_file env (Path m) of
                                 None \<Rightarrow> (Some ReadGzipError, x)
                               | Some content \<Rightarrow>
                                   (case writeFile env r (GzipPath paths) content x of
                                      (Some e, s3) \<Rightarrow> (Some (WriteGzipError e), s3)
                                    | (None, s3) \<Rightarrow> (None, s3)))
                        = fst (case read_file env (Path m) of
                                 None \<Rightarrow> (Some ReadGzipError, y)
                               | Some content \<Rightarrow>
                                   (case writeFile env r (GzipPath paths) content y of
                                      (Some e, s3) \<Rightarrow> (Some (WriteGzipError e), s3)
                                    | (None, s3) \<Rightarrow> (None, s3)))" for x y
              proof (cases "read_file env (Path m)")
                case None
                then show ?thesis by simp
              next
                case (Some content)
                obtain e2 a2 where b: "writeFile env r (GzipPath paths) content x = (e2, a2)"
                  by (cases "writeFile env r (GzipPath paths) content x")
                obtain e2' a2' where b': "writeFile env r (GzipPath paths) content y = (e2', a2')"
                  by (cases "writeFile env r (GzipPath paths) content y")
                have "e2' = e2" using wfe[of "GzipPath paths" content x y] b b' by simp
                then show ?thesis using Some b b' by (auto split: option.splits)
              qed
              show ?thesis
              proof (cases e1)
                case (Some e)
                then show ?thesis using Inr False so \<open>convert_manpage env (Path m) = Some rawHTML\<close> tr bt a a' e1
                  by (simp add: ProcessSingleManpage_def)
              next
                case None
                then show ?thesis
                  using Inr False so \<open>convert_manpage env (Path m) = Some rawHTML\<close> tr bt a a' e1 rest
                  by (simp add: ProcessSingleManpage_def Let_def)
              qed
            qed
          qed
        qed
      qed
    qed
  qed
qed

lemma stored_append: "stored fs (a @ b) = stored (stored fs a) b"
  by (simp add: stored_def)

lemma stored_frame: "p \<notin> fst ` set nodes \<Longrightarrow> stored fs nodes p = fs p"
  unfolding stored_def
  by (induction nodes arbitrary: fs) (auto split: prod.splits)

lemma writeFileAbsolute_frame:
  "writeFileAbsolute env p c s = (e, s1) \<Longrightarrow>
   failures s1 = failures s \<and> (\<forall>q. q \<noteq> p \<longrightarrow> files s1 q = files s q)"
  by (auto simp: writeFileAbsolute_def split: option.splits storage_failure.splits)

lemma writeFile_frame:
  "writeFile env r d c s = (e, s1) \<Longrightarrow>
   failures s1 = failures s \<and> (\<forall>q. q \<noteq> path_Join [StorageRoot r, d] \<longrightarrow> files s1 q = files s q)"
  unfolding writeFile_def by (rule writeFileAbsolute_frame)

lemma writeSymlink_frame:
  "writeSymlink env r d t s = (e, s1) \<Longrightarrow>
   failures s1 = failures s \<and> (\<forall>q. q \<noteq> path_Join [StorageRoot r, d] \<longrightarrow> files s1 q = files s q)"
  by (auto simp: writeSymlink_def Let_def split: option.splits storage_failure.splits)

lemma ProcessSingleManpage_frame:
  assumes "ProcessSingleManpage env r release m s = (e, s1)"
  shows "failures s1 = failures s
         \<and> (\<forall>q. q \<notin> set (artifacts env r release m) \<longrightarrow> files s1 q = files s q)"
proof (cases "ParseManpagePath release (RelativePath m)")
  case (Inl err)
  then show ?thesis using assms by (simp add: ProcessSingleManpage_def)
next
  case (Inr paths)
  let ?h = "path_Join [StorageRoot r, HTMLPath paths]"
  let ?g = "path_Join [StorageRoot r, GzipPath paths]"
  show ?thesis
  proof (cases "IsSymlink m")
    case True
    have a: "artifacts env r release m = [?h, ?g]" using Inr True by (simp add: artifacts_def)
    obtain e1 a1 where w1: "writeSymlink env r (HTMLPath paths) (ConvertSymlinkTarget (SymlinkTarget m)) s = (e1, a1)"
      by (cases "writeSymlink env r (HTMLPath paths) (ConvertSymlinkTarget (SymlinkTarget m)) s")
    obtain e2 a2 where w2: "writeSymlink env r (GzipPath paths) (SymlinkTarget m) a1 = (e2, a2)"
      by (cases "writeSymlink env r (GzipPath paths) (SymlinkTarget m) a1")
    have "s1 = a1 \<or> s1 = a2" using assms Inr True w1 w2
      by (auto simp: ProcessSingleManpage_def split: option.splits)
    then show ?thesis using writeSymlink_frame[OF w1] writeSymlink_frame[OF w2] a by auto
  next
    case False
    show ?thesis
    proof (cases "detect_so env (Path m)")
      case None
      then show ?thesis using assms Inr False by (simp add: ProcessSingleManpage_def)
    next
      case (Some so)
      show ?thesis
      proof (cases so)
        case (Some target)
        have a: "artifacts env r release m = [?h]"
          using Inr False Some \<open>detect_so env (Path m) = Some so\<close> by (simp add: artifacts_def)
        obtain e1 a1 where w1: "writeSymlink env r (HTMLPath paths) (ConvertSoTarget target) s = (e1, a1)"
          by (cases "writeSymlink env r (HTMLPath paths) (ConvertSoTarget target) s")
        have "s1 = a1" using assms Inr False Some \<open>detect_so env (Path m) = Some so\<close> w1
          by (auto simp: ProcessSingleManpage_def split: option.splits)
        then show ?thesis using writeSymlink_frame[OF w1] a by auto
      next
        case None
        with \<open>detect_so env (Path m) = Some so\<close> have so: "detect_so env (Path m) = Some None" by simp
        have a: "artifacts env r release m = [?h, ?g]" using Inr False so by (simp add: artifacts_def)
        show ?thesis
        proof (cases "convert_manpage env (Path m)")
          case None
          then show ?thesis using assms Inr False so by (simp add: ProcessSingleManpage_def)
        next
          case (Some rawHTML)
          let ?meta = "(Meta m)\<lparr>MetaFilename := filepath_Base (RelativePath m)\<rparr>"
          show ?thesis
          proof (cases "transform_pipeline env release rawHTML ?meta")
            case None
            then show ?thesis using assms Inr False so Some by (simp add: ProcessSingleManpage_def)
          next
            case tr: (Some bt)
            obtain body title where bt: "bt = (body, title)" by (cases bt)
            obtain e1 a1 where w1: "writeFile env r (HTMLPath paths) body s = (e1, a1)"
              by (cases "writeFile env r (HTMLPath paths) body s")
            note f1 = writeFile_frame[OF w1]
            show ?thesis
            proof (cases e1)
              case (Some err)
              then have "s1 = a1" using assms Inr False so \<open>convert_manpage env (Path m) = Some rawHTML\<close> tr bt w1
                by (simp add: ProcessSingleManpage_def)
              then show ?thesis using f1 a by auto
            next
              case None
              let ?doc = "\<lparr> doc_Title = title, doc_Path = ''/'' @ HTMLPath paths,
                            doc_Section = Section paths, doc_Distro = release,
                            doc_Language = Language paths, doc_Content = strip_tags env body \<rparr>"
              let ?b = "if HasIndexer r then a1\<lparr>indexed := indexed a1 @ [?doc]\<rparr> else a1"
              have fb: "files ?b = files a1" "failures ?b = failures a1" by auto
              show ?thesis
              proof (cases "HasIndexer r \<and> index_fails env ?doc")
                case True
                then have "s1 = a1"
                  using assms Inr False so \<open>convert_manpage env (Path m) = Some rawHTML\<close> tr bt w1 None
                  by (simp add: ProcessSingleManpage_def Let_def)
                then show ?thesis using f1 a by auto
              next
                case nf: False
                show ?thesis
                proof (cases "read_file env (Path m)")
                  case None
                  then have "s1 = ?b"
                    using assms Inr False so \<open>convert_manpage env (Path m) = Some rawHTML\<close> tr bt w1
                      \<open>e1 = None\<close> nf
                    by (auto simp: ProcessSingleManpage_def Let_def)
                  then show ?thesis using f1 a fb by auto
                next
                  case (Some content)
                  obtain e2 a2 where w2: "writeFile env r (GzipPath paths) content ?b = (e2, a2)"
                    by (cases "writeFile env r (GzipPath paths) content ?b")
                  have "s1 = a2"
                    using assms Inr False so \<open>convert_manpage env (Path m) = Some rawHTML\<close> tr bt w1
                      \<open>e1 = None\<close> nf Some w2
                    by (cases "HasIndexer r")
                       (auto simp: ProcessSingleManpage_def Let_def split: option.splits)
                  then show ?thesis using f1 writeFile_frame[OF w2] a fb by auto
                qed
              qed
            qed
          qed
        qed
      qed
    qed
  qed
qed


lemma ProcessSingleManpage_stored:
  assumes "ProcessSingleManpage env r release m s = (None, s1)"
  shows "files s1 = stored (files s) (artifact_nodes env r release m) \<and> failures s1 = failures s"
proof -
  obtain paths where p: "ParseManpagePath release (RelativePath m) = Inr paths"
    using assms by (auto simp: ProcessSingleManpage_def split: sum.splits)
  show ?thesis
  proof (cases "IsSymlink m")
    case True
    then obtain sa where
      a: "writeSymlink env r (HTMLPath paths) (ConvertSymlinkTarget (SymlinkTarget m)) s = (None, sa)"
      and b: "writeSymlink env r (GzipPath paths) (SymlinkTarget m) sa = (None, s1)"
      using assms p by (auto simp: ProcessSingleManpage_def split: prod.splits option.splits)
    show ?thesis using writeSymlink_ok[OF a] writeSymlink_ok[OF b] p True
      by (simp add: artifact_nodes_def stored_def)
  next
    case False
    show ?thesis
    proof (cases "detect_so env (Path m)")
      case None
      then show ?thesis using assms p False by (simp add: ProcessSingleManpage_def)
    next
      case (Some so)
      show ?thesis
      proof (cases so)
        case (Some target)
        then have "writeSymlink env r (HTMLPath paths) (ConvertSoTarget target) s = (None, s1)"
          using assms p False \<open>detect_so env (Path m) = Some so\<close>
          by (auto simp: ProcessSingleManpage_def split: prod.splits option.splits)
        from writeSymlink_ok[OF this] show ?thesis
          using p False Some \<open>detect_so env (Path m) = Some so\<close>
          by (simp add: artifact_nodes_def stored_def)
      next
        case None
        with \<open>detect_so env (Path m) = Some so\<close> have so: "detect_so env (Path m) = Some None" by simp
        from assms p False so obtain rawHTML body title content sa sb where
          c: "convert_manpage env (Path m) = Some rawHTML"
          and t: "transform_pipeline env release rawHTML
                    ((Meta m)\<lparr>MetaFilename := filepath_Base (RelativePath m)\<rparr>) = Some (body, title)"
          and rf: "read_file env (Path m) = Some content"
          and a: "writeFile env r (HTMLPath paths) body s = (None, sa)"
          and sb: "sb = (if HasIndexer r then sa\<lparr>indexed := indexed sa @
                 [\<lparr> doc_Title = title, doc_Path = ''/'' @ HTMLPath paths,
                    doc_Section = Section paths, doc_Distro = release,
                    doc_Language = Language paths, doc_Content = strip_tags env body \<rparr>]\<rparr> else sa)"
          and b: "writeFile env r (GzipPath paths) content sb = (None, s1)"
          by (auto simp: ProcessSingleManpage_def Let_def
              split: prod.splits option.splits if_splits)
        have "files sb = files sa" "failures sb = failures sa" using sb by auto
        then show ?thesis using writeFile_ok[OF a] writeFile_ok[OF b] p False so c t rf
          by (simp add: artifact_nodes_def stored_def)
      qed
    qed
  qed
qed

lemma outcome_any_state:
  "fst (ProcessSingleManpage env r release m s) = outcome env r release s0 m"
  unfolding outcome_def by (rule ProcessSingleManpage_fst)

lemma process_manpages_run:
  "\<exists>s'. process_manpages env r release manpages s =
          (first_error env r release s0 manpages, s')
        \<and> (first_error env r release s0 manpages = None
             \<longleftrightarrow> find (fails_fatally env r release s0) manpages = None)
        \<and> failures s' = failures s
            @ conversion_failures env r release s0 (processed_manpages env r release s0 manpages)
        \<and> (\<forall>p. (case find (fails_fatally env r release s0) manpages of
                    None \<Rightarrow> True
                  | Some bad \<Rightarrow> p \<notin> set (artifacts env r release bad))
               \<longrightarrow> files s' p
                  = stored (files s)
                      (stored_artifacts env r release s0 (processed_manpages env r release s0 manpages)) p)"
proof (induction manpages arbitrary: s)
  case Nil
  then show ?case
    by (simp add: processed_manpages_def conversion_failures_def stored_artifacts_def stored_def
        first_error_def)
next
  case (Cons m manpages)
  obtain e s1 where p: "ProcessSingleManpage env r release m s = (e, s1)"
    by (cases "ProcessSingleManpage env r release m s")
  have e0: "outcome env r release s0 m = e" using outcome_any_state[of env r release m s s0] p by simp
  note fr = ProcessSingleManpage_frame[OF p]
  show ?case
  proof (cases e)
    case None
    have nf: "\<not> fails_fatally env r release s0 m" using e0 None by (simp add: fails_fatally_def)
    note st = ProcessSingleManpage_stored[OF p[unfolded None]]
    from Cons.IH[of s1] obtain s' where
      r: "process_manpages env r release manpages s1 =
            (first_error env r release s0 manpages, s')"
      "first_error env r release s0 manpages = None
             \<longleftrightarrow> find (fails_fatally env r release s0) manpages = None"
      "failures s' = failures s1
         @ conversion_failures env r release s0 (processed_manpages env r release s0 manpages)"
      "\<forall>p. (case find (fails_fatally env r release s0) manpages of
                    None \<Rightarrow> True
                  | Some bad \<Rightarrow> p \<notin> set (artifacts env r release bad))
               \<longrightarrow> files s' p
                  = stored (files s1)
                      (stored_artifacts env r release s0 (processed_manpages env r release s0 manpages)) p"
      by auto
    have pm: "processed_manpages env r release s0 (m # manpages)
               = m # processed_manpages env r release s0 manpages"
      using nf by (simp add: processed_manpages_def)
    have sa: "stored_artifacts env r release s0 (m # processed_manpages env r release s0 manpages)
               = artifact_nodes env r release m
                 @ stored_artifacts env r release s0 (processed_manpages env r release s0 manpages)"
      using e0 None by (simp add: stored_artifacts_def)
    have cf: "conversion_failures env r release s0 (m # processed_manpages env r release s0 manpages)
               = conversion_failures env r release s0 (processed_manpages env r release s0 manpages)"
      using e0 None by (simp add: conversion_failures_def)
    have run: "process_manpages env r release (m # manpages) s
               = process_manpages env r release manpages s1"
      using p None by (simp add: processManpage_def)
    show ?thesis
      unfolding run pm sa cf stored_append
      using r st nf by (intro exI[of _ s']) (simp add: first_error_def)
  next
    case (Some err)
    show ?thesis
    proof (cases "err = ConvertError")
      case True
      have nf: "\<not> fails_fatally env r release s0 m" using e0 Some True by (simp add: fails_fatally_def)
      have s1: "s1 = s" using ProcessSingleManpage_convert_error p Some True by blast
      let ?s2 = "recordFailure ''convert'' (Path m) ConvertError s"
      from Cons.IH[of ?s2] obtain s' where
        r: "process_manpages env r release manpages ?s2 =
              (first_error env r release s0 manpages, s')"
        "first_error env r release s0 manpages = None
             \<longleftrightarrow> find (fails_fatally env r release s0) manpages = None"
        "failures s' = failures ?s2
           @ conversion_failures env r release s0 (processed_manpages env r release s0 manpages)"
        "\<forall>p. (case find (fails_fatally env r release s0) manpages of
                      None \<Rightarrow> True
                    | Some bad \<Rightarrow> p \<notin> set (artifacts env r release bad))
                 \<longrightarrow> files s' p
                    = stored (files ?s2)
                        (stored_artifacts env r release s0 (processed_manpages env r release s0 manpages)) p"
        by auto
      have pm: "processed_manpages env r release s0 (m # manpages)
                 = m # processed_manpages env r release s0 manpages"
        using nf by (simp add: processed_manpages_def)
      have sa: "stored_artifacts env r release s0 (m # processed_manpages env r release s0 manpages)
                 = stored_artifacts env r release s0 (processed_manpages env r release s0 manpages)"
        using e0 Some True by (simp add: stored_artifacts_def)
      have cf: "conversion_failures env r release s0 (m # processed_manpages env r release s0 manpages)
                 = Failure ''convert'' (Path m) ConvertError
                   # conversion_failures env r release s0 (processed_manpages env r release s0 manpages)"
        using e0 Some True by (simp add: conversion_failures_def)
      have run: "process_manpages env r release (m # manpages) s
                 = process_manpages env r release manpages ?s2"
        using p Some True s1 by (simp add: processManpage_def)
      have f2: "files ?s2 = files s" "failures ?s2 = failures s @ [Failure ''convert'' (Path m) ConvertError]"
        by (simp_all add: recordFailure_def)
      show ?thesis
        unfolding run pm sa cf
        using r nf f2 by (intro exI[of _ s']) (simp add: first_error_def)
    next
      case False
      have ff: "fails_fatally env r release s0 m" using e0 Some False by (simp add: fails_fatally_def)
      have pm: "processed_manpages env r release s0 (m # manpages) = []"
        using ff by (simp add: processed_manpages_def)
      have run: "process_manpages env r release (m # manpages) s = (Some err, s1)"
        using p Some False by (simp add: processManpage_def)
      show ?thesis
        unfolding run pm
        using ff fr e0 Some
        by (intro exI[of _ s1])
           (simp add: conversion_failures_def stored_artifacts_def stored_def first_error_def)
    qed
  qed
qed


lemma artifact_nodes_paths:
  "fst ` set (artifact_nodes env r release m) \<subseteq> set (artifacts env r release m)"
proof (cases "ParseManpagePath release (RelativePath m)")
  case (Inl e)
  then show ?thesis by (simp add: artifact_nodes_def)
next
  case (Inr paths)
  show ?thesis
  proof (cases "IsSymlink m")
    case True
    then show ?thesis using Inr by (simp add: artifact_nodes_def artifacts_def)
  next
    case False
    show ?thesis
    proof (cases "detect_so env (Path m)")
      case None
      then show ?thesis using Inr False by (simp add: artifact_nodes_def)
    next
      case (Some so)
      then show ?thesis using Inr False
        by (cases so) (auto simp: artifact_nodes_def artifacts_def split: option.splits)
    qed
  qed
qed

lemma stored_artifacts_paths:
  "fst ` set (stored_artifacts env r release s ms) \<subseteq> set (concat (map (artifacts env r release) ms))"
  using artifact_nodes_paths[of env r release]
  by (fastforce simp: stored_artifacts_def)

lemma processed_all:
  "find (fails_fatally env r release s) manpages = None \<Longrightarrow>
   processed_manpages env r release s manpages = manpages"
  by (simp add: processed_manpages_def find_None_iff takeWhile_eq_all_conv)

lemma processed_subset:
  "set (processed_manpages env r release s manpages) \<subseteq> set manpages"
  unfolding processed_manpages_def by (auto dest: set_takeWhileD)

text \<open>
  Claim C1, amended. For every package that the pipeline runner processes (not skipped by
  the cache, downloaded and extracted), whether or not it has a manpage whose conversion
  fails with a \<open>ConvertError\<close> and one that is processed successfully: the manpages are
  processed in order up to the first that fails with an error other than a
  \<open>ConvertError\<close>; each conversion failure among them is recorded in the failures of the
  release, and nothing else is; the artifacts of the successfully processed manpages are
  persisted, with their contents. When no manpage fails with another error, the cache entry
  is written all the same, conversion failures or not: \<open>processPackage\<close> returns no error
  and the files are those of the successfully processed manpages and the cache entry with the
  sha1 of the package, provided the name, the sha1 and the release are not empty and the cache
  file can be written (a package without name or sha1 gets no cache entry). A cache entry is
  written only after every manpage of the package has been persisted or has failed
  conversion: when a manpage fails with another error, \<open>processPackage\<close> returns that
  error, the files outside the paths of that manpage are those of the manpages processed
  before it, and the cache file, when it is not itself a path of a manpage, is as it was.
\<close>

theorem processPackage_cache_entry:
  assumes processed: "ForceProcess r \<or> Name pkg = [] \<or> SHA1 pkg = []
                      \<or> \<not> CheckCache r release (Name pkg) (SHA1 pkg) s"
    and fetched: "fst (FetchDeb (download env (Filename pkg)) f (Filename pkg)) = Inr debPath"
    and extracted: "extract_manpages env debPath = Some manpages"
  shows "failures (snd (processPackage env r f release pkg s))
           = failures s
             @ conversion_failures env r release s (processed_manpages env r release s manpages)
         \<and> (case find (fails_fatally env r release s) manpages of
               None \<Rightarrow>
                 if Name pkg \<noteq> [] \<and> SHA1 pkg \<noteq> []
                 then release \<noteq> [] \<and> storage_fails env (cachePath r release (Name pkg)) = None
                      \<longrightarrow> fst (processPackage env r f release pkg s) = None
                          \<and> files (snd (processPackage env r f release pkg s))
                              = (stored (files s) (stored_artifacts env r release s manpages))
                                  (cachePath r release (Name pkg) \<mapsto> RegularFile (SHA1 pkg))
                 else fst (processPackage env r f release pkg s) = None
                      \<and> files (snd (processPackage env r f release pkg s))
                          = stored (files s) (stored_artifacts env r release s manpages)
             | Some bad \<Rightarrow>
                 fst (processPackage env r f release pkg s) = outcome env r release s bad
                 \<and> fst (processPackage env r f release pkg s) \<noteq> None
                 \<and> (\<forall>p. p \<notin> set (artifacts env r release bad)
                        \<longrightarrow> files (snd (processPackage env r f release pkg s)) p
                            = stored (files s)
                                (stored_artifacts env r release s
                                   (processed_manpages env r release s manpages)) p)
                 \<and> (cachePath r release (Name pkg)
                       \<notin> set (concat (map (artifacts env r release) manpages))
                     \<longrightarrow> files (snd (processPackage env r f release pkg s))
                             (cachePath r release (Name pkg))
                           = files s (cachePath r release (Name pkg))))"
proof -
  let ?c = "cachePath r release (Name pkg)"
  from process_manpages_run[of env r release manpages s s] obtain s1 where
    run: "process_manpages env r release manpages s = (first_error env r release s manpages, s1)"
    and fe: "first_error env r release s manpages = None
             \<longleftrightarrow> find (fails_fatally env r release s) manpages = None"
    and fl: "failures s1 = failures s
             @ conversion_failures env r release s (processed_manpages env r release s manpages)"
    and fs: "\<forall>p. (case find (fails_fatally env r release s) manpages of
                    None \<Rightarrow> True
                  | Some bad \<Rightarrow> p \<notin> set (artifacts env r release bad))
               \<longrightarrow> files s1 p
                  = stored (files s)
                      (stored_artifacts env r release s (processed_manpages env r release s manpages)) p"
    by auto
  have guard: "\<not> (\<not> ForceProcess r \<and> Name pkg \<noteq> [] \<and> SHA1 pkg \<noteq> []
                  \<and> CheckCache r release (Name pkg) (SHA1 pkg) s)"
    using processed by auto
  show ?thesis
  proof (cases "find (fails_fatally env r release s) manpages")
    case None
    then have ok: "first_error env r release s manpages = None" using fe by simp
    have all: "processed_manpages env r release s manpages = manpages"
      using None by (rule processed_all)
    have files1: "files s1 = stored (files s) (stored_artifacts env r release s manpages)"
      using fs None all by auto
    show ?thesis
    proof (cases "Name pkg \<noteq> [] \<and> SHA1 pkg \<noteq> []")
      case False
      have "processPackage env r f release pkg s = (None, s1)"
        using guard fetched extracted run ok False by (auto simp: processPackage_def)
      then show ?thesis using None False fl files1 by auto
    next
      case True
      have fw: "failures (snd (WriteCache env r release (Name pkg) (SHA1 pkg) s1)) = failures s1"
        by (auto simp: WriteCache_def writeFileAbsolute_def
            split: option.splits storage_failure.splits)
      have pp: "snd (processPackage env r f release pkg s)
                 = snd (WriteCache env r release (Name pkg) (SHA1 pkg) s1)"
        "fst (processPackage env r f release pkg s)
                 = map_option WriteCacheError (fst (WriteCache env r release (Name pkg) (SHA1 pkg) s1))"
        using guard fetched extracted run ok True
        by (auto simp: processPackage_def split: prod.splits option.splits)
      have w: "release \<noteq> [] \<and> storage_fails env ?c = None \<longrightarrow>
          WriteCache env r release (Name pkg) (SHA1 pkg) s1
            = (None, s1\<lparr>files := (files s1)(?c \<mapsto> RegularFile (SHA1 pkg))\<rparr>)"
        by (simp add: WriteCache_def writeFileAbsolute_def)
      show ?thesis using None True pp fw fl w files1 by auto
    qed
  next
    case (Some bad)
    then have err: "first_error env r release s manpages = outcome env r release s bad"
      by (simp add: first_error_def)
    have ne: "first_error env r release s manpages \<noteq> None" using fe Some by simp
    then obtain e where e: "first_error env r release s manpages = Some e" by auto
    have pp: "processPackage env r f release pkg s = (Some e, s1)"
      using guard fetched extracted run e by (auto simp: processPackage_def)
    have bad_in: "bad \<in> set manpages" using Some by (auto simp: find_Some_iff)
    have apart: "files s1 ?c = files s ?c"
      if a: "?c \<notin> set (concat (map (artifacts env r release) manpages))"
    proof -
      have "?c \<notin> set (artifacts env r release bad)" using a bad_in by auto
      then have "files s1 ?c = stored (files s)
          (stored_artifacts env r release s (processed_manpages env r release s manpages)) ?c"
        using fs Some by simp
      moreover have "?c \<notin> fst ` set (stored_artifacts env r release s
                                      (processed_manpages env r release s manpages))"
        using a stored_artifacts_paths[of env r release s "processed_manpages env r release s manpages"]
          processed_subset[of env r release s manpages] by auto
      ultimately show ?thesis by (simp add: stored_frame)
    qed
    have eo: "outcome env r release s bad = Some e" using err e by simp
    show ?thesis using Some pp eo fl fs apart by simp
  qed
qed


text \<open>
  The claim as stated fails: for the package with one page that fails conversion and one
  that is processed, the artifact of the latter is persisted and the cache entry is
  written all the same.
\<close>

theorem processPackage_writes_cache_with_broken_page:
  "fst (ProcessSingleManpage one_broken_page www_runner ''noble'' broken_page empty_state)
     = Some ConvertError
   \<and> fst (ProcessSingleManpage one_broken_page www_runner ''noble'' ls_page empty_state) = None
   \<and> fst (processPackage one_broken_page www_runner test_fetcher ''noble'' coreutils empty_state)
     = None
   \<and> files (snd (processPackage one_broken_page www_runner test_fetcher ''noble'' coreutils
                    empty_state)) ''/www/manpages/noble/.cache/coreutils''
     = Some (RegularFile ''0a1b2c'')
   \<and> files (snd (processPackage one_broken_page www_runner test_fetcher ''noble'' coreutils
                    empty_state)) ''/www/manpages/noble/man1/ls.1.html''
     = Some (RegularFile ''<!--META:{}-->'')"
  by code_simp

lemma coreutils_cache:
  "cachePath www_runner ''noble'' ''coreutils'' = ''/www/manpages/noble/.cache/coreutils''"
  by code_simp

lemma coreutils_fetched:
  "fst (FetchDeb download_ok test_fetcher (Filename coreutils)) = Inr ''/tmp/work/coreutils_9.4-3.deb''"
  by code_simp

lemma one_broken_page_outcomes:
  "outcome one_broken_page www_runner ''noble'' empty_state broken_page = Some ConvertError"
  "outcome one_broken_page www_runner ''noble'' empty_state ls_page = None"
  by code_simp+

lemma one_broken_page_stored:
  "stored_artifacts one_broken_page www_runner ''noble'' empty_state [broken_page, ls_page]
     = [(''/www/manpages/noble/man1/ls.1.html'', RegularFile ''<!--META:{}-->''),
        (''/www/manpages.gz/noble/man1/ls.1.gz'', RegularFile ''gzip bytes'')]"
  by code_simp

lemma one_unreadable_page_outcomes:
  "outcome one_unreadable_page www_runner ''noble'' empty_state ls_page = None"
  "outcome one_unreadable_page www_runner ''noble'' empty_state broken_page = Some ConvertError"
  "outcome one_unreadable_page www_runner ''noble'' empty_state cat_page = Some ReadGzipError"
  by code_simp+

lemma one_unreadable_page_artifacts:
  "artifacts one_unreadable_page www_runner ''noble'' ls_page
     = [''/www/manpages/noble/man1/ls.1.html'', ''/www/manpages.gz/noble/man1/ls.1.gz'']"
  "artifacts one_unreadable_page www_runner ''noble'' broken_page
     = [''/www/manpages/noble/man1/broken.1.html'', ''/www/manpages.gz/noble/man1/broken.1.gz'']"
  "artifacts one_unreadable_page www_runner ''noble'' cat_page
     = [''/www/manpages/noble/man1/cat.1.html'', ''/www/manpages.gz/noble/man1/cat.1.gz'']"
  by code_simp+

lemma one_unreadable_page_stored:
  "stored_artifacts one_unreadable_page www_runner ''noble'' empty_state [ls_page, broken_page]
     = [(''/www/manpages/noble/man1/ls.1.html'', RegularFile ''<!--META:{}-->''),
        (''/www/manpages.gz/noble/man1/ls.1.gz'', RegularFile ''gzip bytes'')]"
  by code_simp

theorem processPackage_cache_entry_witness:
  "fst (processPackage one_broken_page www_runner test_fetcher ''noble'' coreutils empty_state) = None
   \<and> files (snd (processPackage one_broken_page www_runner test_fetcher ''noble'' coreutils
                    empty_state)) ''/www/manpages/noble/.cache/coreutils''
       = Some (RegularFile ''0a1b2c'')
   \<and> files (snd (processPackage one_broken_page www_runner test_fetcher ''noble'' coreutils
                    empty_state)) ''/www/manpages/noble/man1/ls.1.html''
       = Some (RegularFile ''<!--META:{}-->'')
   \<and> failures (snd (processPackage one_broken_page www_runner test_fetcher ''noble'' coreutils
                       empty_state))
       = [Failure ''convert'' (Path broken_page) ConvertError]
   \<and> fst (processPackage one_unreadable_page www_runner test_fetcher ''noble'' coreutils
             empty_state) = Some ReadGzipError
   \<and> files (snd (processPackage one_unreadable_page www_runner test_fetcher ''noble'' coreutils
                    empty_state)) ''/www/manpages/noble/.cache/coreutils'' = None
   \<and> files (snd (processPackage one_unreadable_page www_runner test_fetcher ''noble'' coreutils
                    empty_state)) ''/www/manpages/noble/man1/ls.1.html''
       = Some (RegularFile ''<!--META:{}-->'')
   \<and> failures (snd (processPackage one_unreadable_page www_runner test_fetcher ''noble'' coreutils
                       empty_state))
       = [Failure ''convert'' (Path broken_page) ConvertError]"
proof -
  have processed: "ForceProcess www_runner \<or> Name coreutils = [] \<or> SHA1 coreutils = []
      \<or> \<not> CheckCache www_runner ''noble'' (Name coreutils) (SHA1 coreutils) empty_state"
    by (simp add: CheckCache_def empty_state_def)
  have fetched1: "fst (FetchDeb (download one_broken_page (Filename coreutils)) test_fetcher
      (Filename coreutils)) = Inr ''/tmp/work/coreutils_9.4-3.deb''"
    using coreutils_fetched by (simp add: one_broken_page_def)
  have extracted1: "extract_manpages one_broken_page ''/tmp/work/coreutils_9.4-3.deb''
      = Some [broken_page, ls_page]"
    by (simp add: one_broken_page_def)
  have fetched2: "fst (FetchDeb (download one_unreadable_page (Filename coreutils)) test_fetcher
      (Filename coreutils)) = Inr ''/tmp/work/coreutils_9.4-3.deb''"
    using coreutils_fetched by (simp add: one_unreadable_page_def)
  have extracted2: "extract_manpages one_unreadable_page ''/tmp/work/coreutils_9.4-3.deb''
      = Some [ls_page, broken_page, cat_page]"
    by (simp add: one_unreadable_page_def)
  have named: "Name coreutils = ''coreutils''" "SHA1 coreutils = ''0a1b2c''"
    by (simp_all add: coreutils_def)
  have ok1: "storage_fails one_broken_page p = None" for p by (simp add: one_broken_page_def)
  have empty: "files empty_state = Map.empty" "failures empty_state = []"
    by (simp_all add: empty_state_def)
  note t1 = processPackage_cache_entry[OF processed fetched1 extracted1]
  note t2 = processPackage_cache_entry[OF processed fetched2 extracted2]
  have a: "fst (processPackage one_broken_page www_runner test_fetcher ''noble'' coreutils empty_state) = None
    \<and> files (snd (processPackage one_broken_page www_runner test_fetcher ''noble'' coreutils empty_state))
       = (stored Map.empty
            [(''/www/manpages/noble/man1/ls.1.html'', RegularFile ''<!--META:{}-->''),
             (''/www/manpages.gz/noble/man1/ls.1.gz'', RegularFile ''gzip bytes'')])
           (''/www/manpages/noble/.cache/coreutils'' \<mapsto> RegularFile ''0a1b2c'')
    \<and> failures (snd (processPackage one_broken_page www_runner test_fetcher ''noble'' coreutils empty_state))
       = [Failure ''convert'' (Path broken_page) ConvertError]"
    using t1
    by (simp add: fails_fatally_def one_broken_page_outcomes one_broken_page_stored
        coreutils_cache named ok1 empty processed_manpages_def conversion_failures_def)
  have b: "fst (processPackage one_unreadable_page www_runner test_fetcher ''noble'' coreutils empty_state)
      = Some ReadGzipError
    \<and> files (snd (processPackage one_unreadable_page www_runner test_fetcher ''noble'' coreutils empty_state))
        ''/www/manpages/noble/.cache/coreutils'' = None
    \<and> files (snd (processPackage one_unreadable_page www_runner test_fetcher ''noble'' coreutils empty_state))
        ''/www/manpages/noble/man1/ls.1.html''
       = stored Map.empty
            [(''/www/manpages/noble/man1/ls.1.html'', RegularFile ''<!--META:{}-->''),
             (''/www/manpages.gz/noble/man1/ls.1.gz'', RegularFile ''gzip bytes'')]
           ''/www/manpages/noble/man1/ls.1.html''
    \<and> failures (snd (processPackage one_unreadable_page www_runner test_fetcher ''noble'' coreutils empty_state))
       = [Failure ''convert'' (Path broken_page) ConvertError]"
    using t2
    by (simp add: fails_fatally_def one_unreadable_page_outcomes one_unreadable_page_stored
        one_unreadable_page_artifacts coreutils_cache named empty processed_manpages_def
        conversion_failures_def)
  show ?thesis using a b by (simp add: stored_def)
qed

subsection \<open>The table of contents\<close>

text \<open>
  Claim C6. The slugs assigned to the h2 headings are claimed to be pairwise distinct, and
  every href of the table of contents to be the id of exactly one heading of the body. The
  loop appends \<open>-i\<close> to a slug already seen and does not look the result up in \<open>seen\<close>: on
  the page with the headings NOTES, NOTES 2 and NOTES, the second heading gets the slug
  \<open>notes-2\<close> from its text and the third, at index 2, gets \<open>notes-2\<close> from the collision of
  \<open>notes\<close>. Two headings of the body then carry the id \<open>notes-2\<close>, and two lines of the table
  link to it.
\<close>

theorem bGenerateTOC_repeats_slug:
  "assigned_slugs entities notes_page = [''notes'', ''notes-2'', ''notes-2'']
   \<and> \<not> distinct (assigned_slugs entities notes_page)
   \<and> bGenerateTOC entities notes_page =
       (''<h2 id='' @ dq @ ''notes'' @ dq @ ''>NOTES</h2>''
        @ ''<h2 id='' @ dq @ ''notes-2'' @ dq @ ''>NOTES 2</h2>''
        @ ''<h2 id='' @ dq @ ''notes-2'' @ dq @ ''>NOTES</h2>'',
        toc_item (''notes'', ''NOTES'') @ toc_item (''notes-2'', ''NOTES 2'')
        @ toc_item (''notes-2'', ''NOTES''))"
  by code_simp

end
